theory Spec2Isabelle
  imports Complex_Main "HOL-Library.Log_Nat"
begin

section \<open>Data model\<close>

text \<open>
  The enums of the persistence schema, as the code uses them
  (\<^verbatim>\<open>UserRole\<close>, \<^verbatim>\<open>SellerRole\<close>, \<^verbatim>\<open>UserStatus\<close>). An optional
  \<^verbatim>\<open>sellerRole?: SellerRole | null\<close> is a \<open>SellerRole option\<close>: \<open>None\<close> stands for
  both \<^verbatim>\<open>undefined\<close> and \<^verbatim>\<open>null\<close>, which the code never tells apart.
\<close>

datatype UserRole = ADMIN | SELLER | BUYER

datatype SellerRole = MANAGER | ACCOUNTANT | INVENTORY_STAFF

datatype UserStatus = ACTIVE | SUSPENDED | BANNED

section \<open>utils: PermissionUtil\<close>

definition canManageProducts :: "UserRole \<Rightarrow> SellerRole option \<Rightarrow> bool" where
  "canManageProducts role sellerRole =
     (if role = ADMIN then True
      else if role = SELLER
        then (sellerRole = Some MANAGER \<or> sellerRole = Some INVENTORY_STAFF)
      else False)"

definition canViewOrders :: "UserRole \<Rightarrow> SellerRole option \<Rightarrow> bool" where
  "canViewOrders role sellerRole =
     (if role = ADMIN then True
      else if role = SELLER then True
      else if role = BUYER then True
      else False)"

definition canManageOrders :: "UserRole \<Rightarrow> SellerRole option \<Rightarrow> bool" where
  "canManageOrders role sellerRole =
     (if role = ADMIN then True
      else if role = SELLER then sellerRole = Some MANAGER
      else False)"

definition canViewFinancials :: "UserRole \<Rightarrow> SellerRole option \<Rightarrow> bool" where
  "canViewFinancials role sellerRole =
     (if role = ADMIN then True
      else if role = SELLER
        then (sellerRole = Some MANAGER \<or> sellerRole = Some ACCOUNTANT)
      else False)"

definition canManageUsers :: "UserRole \<Rightarrow> bool" where
  "canManageUsers role = (role = ADMIN)"

section \<open>utils: PasswordUtil.validatePasswordStrength\<close>











section \<open>JavaScript numbers\<close>

text \<open>
  Page numbers, limits and row counts are JavaScript numbers: binary64 floating-point
  values. The endpoints obtain them with \<^verbatim>\<open>parseInt\<close> and \<^verbatim>\<open>count\<close>, so each is a whole
  number that binary64 represents, an infinity or \<^verbatim>\<open>NaN\<close>. Arithmetic rounds its exact
  result to the nearest representable value, ties to the even significand, and overflows
  to an infinity. The negative zero is not told apart from zero: the code never divides
  by one.
\<close>

datatype jsnum = Finite int | PosInf | NegInf | NaN

text \<open>
  Rounding a positive fraction \<open>a / b\<close> to binary64. \<open>ilog2_frac a b\<close> is the exponent of
  its leading bit, \<open>to_double a b\<close> the significand \<open>m\<close> (of at most 53 bits) and the
  exponent \<open>e\<close> (not below that of the subnormal numbers) of the rounded value
  \<open>m * 2\<^sup>e\<close>.
\<close>

definition ilog2_frac :: "int \<Rightarrow> int \<Rightarrow> int" where
  "ilog2_frac a b =
     (let d = bitlen a - bitlen b
      in if b * 2 ^ nat d \<le> a * 2 ^ nat (- d) then d else d - 1)"

definition round_half_even :: "int \<Rightarrow> int \<Rightarrow> int" where
  \<comment> \<open>the whole number nearest to \<open>n / d\<close>\<close>
  "round_half_even n d =
     (let f = n div d; r = n mod d
      in if 2 * r < d then f
         else if d < 2 * r then f + 1
         else if even f then f else f + 1)"

definition to_double :: "int \<Rightarrow> int \<Rightarrow> int \<times> int" where
  "to_double a b =
     (let e = max (ilog2_frac a b - 52) (- 1074);
          m = round_half_even (a * 2 ^ nat (- e)) (b * 2 ^ nat e)
      in (m, e))"

definition round_int :: "int \<Rightarrow> jsnum" where
  \<comment> \<open>the number that holds the exact whole result \<open>n\<close> of an operation\<close>
  "round_int n =
     (if n = 0 then Finite 0
      else case to_double \<bar>n\<bar> 1 of
             (m, e) \<Rightarrow>
               (let v = (m * 2 ^ nat e) div 2 ^ nat (- e)
                in if 2 ^ 1024 \<le> v then (if 0 < n then PosInf else NegInf)
                   else Finite (sgn n * v)))"

definition js_sub :: "jsnum \<Rightarrow> jsnum \<Rightarrow> jsnum" where
  "js_sub x y =
     (case (x, y) of
        (Finite a, Finite b) \<Rightarrow> round_int (a - b)
      | (NaN, _) \<Rightarrow> NaN
      | (_, NaN) \<Rightarrow> NaN
      | (PosInf, PosInf) \<Rightarrow> NaN
      | (NegInf, NegInf) \<Rightarrow> NaN
      | (PosInf, _) \<Rightarrow> PosInf
      | (NegInf, _) \<Rightarrow> NegInf
      | (Finite a, PosInf) \<Rightarrow> NegInf
      | (Finite a, NegInf) \<Rightarrow> PosInf)"

definition js_mul :: "jsnum \<Rightarrow> jsnum \<Rightarrow> jsnum" where
  "js_mul x y =
     (case (x, y) of
        (Finite a, Finite b) \<Rightarrow> round_int (a * b)
      | (NaN, _) \<Rightarrow> NaN
      | (_, NaN) \<Rightarrow> NaN
      | (PosInf, Finite b) \<Rightarrow> (if b = 0 then NaN else if 0 < b then PosInf else NegInf)
      | (NegInf, Finite b) \<Rightarrow> (if b = 0 then NaN else if 0 < b then NegInf else PosInf)
      | (Finite a, PosInf) \<Rightarrow> (if a = 0 then NaN else if 0 < a then PosInf else NegInf)
      | (Finite a, NegInf) \<Rightarrow> (if a = 0 then NaN else if 0 < a then NegInf else PosInf)
      | (PosInf, PosInf) \<Rightarrow> PosInf
      | (NegInf, NegInf) \<Rightarrow> PosInf
      | (PosInf, NegInf) \<Rightarrow> NegInf
      | (NegInf, PosInf) \<Rightarrow> NegInf)"

text \<open>
  \<^verbatim>\<open>Math.ceil(x / y)\<close>: the quotient is rounded to binary64 first, then the ceiling is
  taken. For a negative quotient the ceiling is the negated floor of its absolute value.
\<close>

definition js_ceil_div :: "jsnum \<Rightarrow> jsnum \<Rightarrow> jsnum" where
  "js_ceil_div x y =
     (case (x, y) of
        (Finite a, Finite b) \<Rightarrow>
          if b = 0 then (if a = 0 then NaN else if 0 < a then PosInf else NegInf)
          else if a = 0 then Finite 0
          else (case to_double \<bar>a\<bar> \<bar>b\<bar> of
                  (m, e) \<Rightarrow>
                    if (0 < a) = (0 < b)
                      then Finite (- ((- (m * 2 ^ nat e)) div 2 ^ nat (- e)))
                    else Finite (- ((m * 2 ^ nat e) div 2 ^ nat (- e))))
      | (NaN, _) \<Rightarrow> NaN
      | (_, NaN) \<Rightarrow> NaN
      | (PosInf, Finite b) \<Rightarrow> (if 0 \<le> b then PosInf else NegInf)
      | (NegInf, Finite b) \<Rightarrow> (if 0 \<le> b then NegInf else PosInf)
      | (Finite a, _) \<Rightarrow> Finite 0
      | (_, _) \<Rightarrow> NaN)"

definition js_less :: "jsnum \<Rightarrow> jsnum \<Rightarrow> bool" where
  "js_less x y =
     (case (x, y) of
        (Finite a, Finite b) \<Rightarrow> a < b
      | (NaN, _) \<Rightarrow> False
      | (_, NaN) \<Rightarrow> False
      | (PosInf, _) \<Rightarrow> False
      | (_, NegInf) \<Rightarrow> False
      | (_, _) \<Rightarrow> True)"

definition js_or :: "jsnum \<Rightarrow> jsnum \<Rightarrow> jsnum" where
  \<comment> \<open>\<^verbatim>\<open>x || d\<close>: \<^verbatim>\<open>NaN\<close> and \<open>0\<close> are falsy\<close>
  "js_or x d = (case x of NaN \<Rightarrow> d | Finite n \<Rightarrow> if n = 0 then d else x | _ \<Rightarrow> x)"

section \<open>utils: ResponseUtil.paginate, and the paging of the list endpoints\<close>

record page_meta =
  m_page :: jsnum
  m_limit :: jsnum
  m_total :: jsnum
  m_totalPages :: jsnum
  m_hasNext :: bool
  m_hasPrev :: bool

definition paginate :: "'a list \<Rightarrow> jsnum \<Rightarrow> jsnum \<Rightarrow> jsnum \<Rightarrow> 'a list \<times> page_meta" where
  "paginate rows page limit tot =
     (let totalPages = js_ceil_div tot limit
      in (rows,
          \<lparr>m_page = page, m_limit = limit, m_total = tot, m_totalPages = totalPages,
           m_hasNext = js_less page totalPages, m_hasPrev = js_less (Finite 1) page\<rparr>))"

text \<open>
  The persistence layer's \<^verbatim>\<open>findMany({where, orderBy, skip, take})\<close> over the rows that
  match \<^verbatim>\<open>where\<close>, already in \<^verbatim>\<open>orderBy\<close> order. Both arguments must be whole numbers
  that fit a signed 64-bit integer, and \<^verbatim>\<open>skip\<close> must not be negative; a negative
  \<^verbatim>\<open>take\<close> counts from the end of the list. \<^verbatim>\<open>count({where})\<close> gives the number of
  matching rows, as a number.
\<close>

datatype query_error = InvalidSkip | InvalidTake

definition int64_max :: int where
  "int64_max = 2 ^ 63 - 1"

definition findMany :: "'a list \<Rightarrow> jsnum \<Rightarrow> jsnum \<Rightarrow> query_error + 'a list" where
  "findMany matching skip tk =
     (case skip of
        Finite s \<Rightarrow>
          if s < 0 \<or> int64_max < s then Inl InvalidSkip
          else (case tk of
                  Finite t \<Rightarrow>
                    if t < - int64_max - 1 \<or> int64_max < t then Inl InvalidTake
                    else if 0 \<le> t then Inr (take (nat t) (drop (nat s) matching))
                    else Inr (rev (take (nat (- t)) (drop (nat s) (rev matching))))
                | _ \<Rightarrow> Inl InvalidTake)
      | _ \<Rightarrow> Inl InvalidSkip)"

definition count_rows :: "'a list \<Rightarrow> jsnum" where
  "count_rows matching = round_int (int (length matching))"

text \<open>
  The paging that \<^verbatim>\<open>getProducts\<close>, \<^verbatim>\<open>getSellerProducts\<close> and \<^verbatim>\<open>searchProducts\<close>
  share. \<open>pageParam\<close> and \<open>limitParam\<close> are the results of \<^verbatim>\<open>parseInt\<close> on the two query
  parameters (a parameter missing from the query is parsed from its default text,
  \<^verbatim>\<open>'1'\<close> for the page and \<^verbatim>\<open>'10'\<close> for the limit); a falsy result gives the default.
  The handler skips \<open>(page - 1) * limit\<close> rows, takes \<open>limit\<close>, counts all matching rows
  and wraps the page with \<open>paginate\<close>. The products of \<^verbatim>\<open>getProducts\<close> are decorated
  row by row (\<open>decorate\<close>: the average rating and the counts), which keeps their number
  and order.
\<close>

definition getProducts ::
  "('a \<Rightarrow> 'b) \<Rightarrow> jsnum \<Rightarrow> jsnum \<Rightarrow> 'a list \<Rightarrow> query_error + ('b list \<times> page_meta)" where
  "getProducts decorate pageParam limitParam matching =
     (let page = js_or pageParam (Finite 1);
          limit = js_or limitParam (Finite 10);
          skip = js_mul (js_sub page (Finite 1)) limit
      in case findMany matching skip limit of
           Inl e \<Rightarrow> Inl e
         | Inr products \<Rightarrow>
             (let tot = count_rows matching
              in Inr (paginate (map decorate products) page limit tot)))"

section \<open>Error objects: ErrorUtil and the centralized error handler\<close>

text \<open>
  The handler receives \<^verbatim>\<open>error: any\<close> and reads the properties below; a property that
  the object does not have is \<open>None\<close>. \<open>e_stack\<close> is the trace the runtime records when
  the error is created, \<open>e_meta_target\<close> is \<^verbatim>\<open>error.meta?.target\<close>, \<open>e_issues\<close> the
  issues of a schema-validation error and \<open>e_errors\<close> the values of
  \<^verbatim>\<open>error.errors\<close>.
\<close>

record zod_issue =
  i_path :: "string list"
  i_message :: string
  i_received :: "string option"

record field_error =
  v_field :: string
  v_message :: string
  v_value :: "string option"

record app_error =
  e_name :: "string option"
  e_message :: "string option"
  e_statusCode :: "nat option"
  e_code :: "string option"
  e_stack :: "string option"
  e_meta_target :: "string list option"
  e_issues :: "zod_issue list option"
  e_errors :: "field_error list option"

text \<open>
  \<^verbatim>\<open>new Error(message)\<close>, with the trace \<open>stk\<close> the runtime captures at that point; the
  factory functions of \<^verbatim>\<open>ErrorUtil\<close> add \<^verbatim>\<open>statusCode\<close> and \<^verbatim>\<open>code\<close>.
\<close>

definition new_Error :: "string \<Rightarrow> string \<Rightarrow> app_error" where
  "new_Error stk msg =
     \<lparr>e_name = Some ''Error'', e_message = Some msg, e_statusCode = None, e_code = None,
      e_stack = Some stk, e_meta_target = None, e_issues = None, e_errors = None\<rparr>"

definition createError :: "string \<Rightarrow> string \<Rightarrow> nat \<Rightarrow> string option \<Rightarrow> app_error" where
  "createError stk msg statusCode code =
     (new_Error stk msg)\<lparr>e_statusCode := Some statusCode, e_code := code\<rparr>"

definition createNotFoundError :: "string \<Rightarrow> string \<Rightarrow> app_error" where
  "createNotFoundError stk resource =
     (new_Error stk (resource @ '' not found''))
       \<lparr>e_statusCode := Some 404, e_code := Some ''NOT_FOUND''\<rparr>"

definition createUnauthorizedError :: "string \<Rightarrow> string \<Rightarrow> app_error" where
  "createUnauthorizedError stk msg =
     (new_Error stk msg)\<lparr>e_statusCode := Some 401, e_code := Some ''UNAUTHORIZED''\<rparr>"

definition createForbiddenError :: "string \<Rightarrow> string \<Rightarrow> app_error" where
  "createForbiddenError stk msg =
     (new_Error stk msg)\<lparr>e_statusCode := Some 403, e_code := Some ''FORBIDDEN''\<rparr>"

text \<open>
  The error the persistence layer throws on a unique-constraint violation: code
  \<^verbatim>\<open>P2002\<close> with the violated fields as \<^verbatim>\<open>meta.target\<close>. Its message text \<open>msg\<close> is
  produced by the persistence layer.
\<close>

definition unique_violation :: "string \<Rightarrow> string \<Rightarrow> string list \<Rightarrow> app_error" where
  "unique_violation stk msg target =
     \<lparr>e_name = Some ''PrismaClientKnownRequestError'', e_message = Some msg,
      e_statusCode = None, e_code = Some ''P2002'', e_stack = Some stk,
      e_meta_target = Some target, e_issues = None, e_errors = None\<rparr>"

text \<open>String helpers of the handler: \<^verbatim>\<open>join\<close>, \<^verbatim>\<open>startsWith\<close>, \<^verbatim>\<open>includes\<close>.\<close>

fun join :: "string \<Rightarrow> string list \<Rightarrow> string" where
  "join sep [] = []"
| "join sep [x] = x"
| "join sep (x # y # ys) = x @ sep @ join sep (y # ys)"

definition startsWith :: "string \<Rightarrow> string \<Rightarrow> bool" where
  "startsWith s pre = (take (length pre) s = pre)"

fun includes_str :: "string \<Rightarrow> string \<Rightarrow> bool" where
  "includes_str [] sub = (sub = [])"
| "includes_str (c # cs) sub = (startsWith (c # cs) sub \<or> includes_str cs sub)"

text \<open>A whole number in decimal digits, as string interpolation prints it.\<close>

fun decimal :: "nat \<Rightarrow> string" where
  "decimal n =
     (if n < 10 then [char_of (48 + n)]
      else decimal (n div 10) @ [char_of (48 + n mod 10)])"

declare decimal.simps [simp del]

text \<open>
  The handler keeps three variables, \<^verbatim>\<open>statusCode\<close>, \<^verbatim>\<open>message\<close> and \<^verbatim>\<open>code\<close>, and
  runs a fixed sequence of tests on the error, each of which may overwrite them. Every
  test below is one \<^verbatim>\<open>if\<close> cascade of the source, in the source's order.
\<close>

type_synonym verdict = "nat \<times> string \<times> string option"

definition initial_verdict :: "app_error \<Rightarrow> verdict" where
  "initial_verdict error =
     ((case e_statusCode error of None \<Rightarrow> 500 | Some n \<Rightarrow> if n = 0 then 500 else n),
      (case e_message error of
         None \<Rightarrow> ''Internal Server Error''
       | Some m \<Rightarrow> if m = [] then ''Internal Server Error'' else m),
      e_code error)"

definition jwt_rule :: "app_error \<Rightarrow> verdict \<Rightarrow> verdict" where
  "jwt_rule error v =
     (if e_name error = Some ''JsonWebTokenError''
        then (401, ''Invalid token'', Some ''INVALID_TOKEN'')
      else if e_name error = Some ''TokenExpiredError''
        then (401, ''Token expired'', Some ''TOKEN_EXPIRED'')
      else v)"

definition prisma_rule :: "app_error \<Rightarrow> verdict \<Rightarrow> verdict" where
  "prisma_rule error v =
     (if e_code error = Some ''P2002''
        then (409,
              ''Duplicate entry: ''
                @ (let joined = (case e_meta_target error of
                                   None \<Rightarrow> [] | Some target \<Rightarrow> join '', '' target)
                   in if joined = [] then ''field'' else joined)
                @ '' already exists'',
              Some ''DUPLICATE_ENTRY'')
      else if e_code error = Some ''P2025''
        then (404, ''Record not found'', Some ''NOT_FOUND'')
      else if (case e_code error of None \<Rightarrow> False | Some c \<Rightarrow> startsWith c ''P'')
        then (400, ''Database operation failed'', Some ''DATABASE_ERROR'')
      else v)"

definition multer_rule :: "app_error \<Rightarrow> verdict \<Rightarrow> verdict" where
  "multer_rule error v =
     (if e_code error = Some ''LIMIT_FILE_SIZE''
        then (413, ''File size too large'', Some ''FILE_SIZE_ERROR'')
      else if e_code error = Some ''LIMIT_UNEXPECTED_FILE''
        then (400, ''Unexpected file field'', Some ''INVALID_FILE_FIELD'')
      else v)"

definition cors_rule :: "app_error \<Rightarrow> verdict \<Rightarrow> verdict" where
  "cors_rule error v =
     (if e_message error = Some ''Not allowed by CORS''
        then (403, ''CORS policy violation'', Some ''CORS_ERROR'')
      else v)"

definition rate_limit_rule :: "app_error \<Rightarrow> verdict \<Rightarrow> verdict" where
  "rate_limit_rule error v =
     (if (case e_message error of
            None \<Rightarrow> False
          | Some m \<Rightarrow> m \<noteq> [] \<and> includes_str m ''Too many requests'')
        then (429, ''Too many requests, please try again later'', Some ''RATE_LIMIT_EXCEEDED'')
      else v)"

definition network_rule :: "app_error \<Rightarrow> verdict \<Rightarrow> verdict" where
  "network_rule error v =
     (if e_code error = Some ''ECONNREFUSED'' \<or> e_code error = Some ''ENOTFOUND''
        then (503, ''Service unavailable'', Some ''SERVICE_UNAVAILABLE'')
      else v)"

text \<open>
  What the handler sends: the HTTP status and the JSON body. The body has
  \<^verbatim>\<open>success: false\<close> and \<^verbatim>\<open>message\<close>; its \<^verbatim>\<open>error\<close> is either the list of field
  errors (the two validation branches, built with \<^verbatim>\<open>ResponseUtil.error\<close>, which also
  adds a \<^verbatim>\<open>statusCode\<close> member) or \<^verbatim>\<open>{code, statusCode}\<close>, extended in development
  with the trace and \<^verbatim>\<open>details: {name, originalMessage, code}\<close>.
\<close>

record dev_details =
  dd_stack :: "string option"
  dd_name :: "string option"
  dd_originalMessage :: "string option"
  dd_code :: "string option"

datatype error_member =
    Validation "field_error list"
  | CodeStatus "string option" nat "dev_details option"

record error_response =
  r_status :: nat
  r_success :: bool
  r_message :: string
  r_error :: error_member
  r_statusCode :: "nat option"

text \<open>
  \<^verbatim>\<open>error.issues.map\<close> and \<^verbatim>\<open>Object.values(error.errors)\<close> throw a \<^verbatim>\<open>TypeError\<close>
  inside the handler when the property is missing; then no response is built.
\<close>

datatype handler_failure = TypeError

definition ResponseUtil_error :: "string \<Rightarrow> nat \<Rightarrow> error_member \<Rightarrow> nat \<Rightarrow> error_response" where
  \<comment> \<open>\<^verbatim>\<open>res.status(status).json(ResponseUtil.error(message, statusCode, error))\<close>\<close>
  "ResponseUtil_error msg statusCode err status =
     \<lparr>r_status = status, r_success = False, r_message = msg, r_error = err,
      r_statusCode = Some statusCode\<rparr>"

definition issue_to_field :: "zod_issue \<Rightarrow> field_error" where
  "issue_to_field issue =
     \<lparr>v_field = join ''.'' (i_path issue), v_message = i_message issue,
      v_value = i_received issue\<rparr>"

definition errorHandler :: "string \<Rightarrow> app_error \<Rightarrow> handler_failure + error_response" where
  "errorHandler node_env error =
     (let v2 = prisma_rule error (jwt_rule error (initial_verdict error))
      in if e_name error = Some ''ZodError'' then
           (case e_issues error of
              None \<Rightarrow> Inl TypeError
            | Some issues \<Rightarrow>
                Inr (ResponseUtil_error ''Validation failed'' 400
                       (Validation (map issue_to_field issues)) 400))
         else
           (let v3 = multer_rule error v2
            in if e_name error = Some ''ValidationError'' then
                 (case e_errors error of
                    None \<Rightarrow> Inl TypeError
                  | Some errs \<Rightarrow>
                      Inr (ResponseUtil_error ''Validation failed'' 400
                             (Validation
                                (map (\<lambda>err. \<lparr>v_field = v_field err, v_message = v_message err,
                                             v_value = v_value err\<rparr>) errs)) 400))
               else
                 (case network_rule error (rate_limit_rule error (cors_rule error v3)) of
                    (statusCode, message, code) \<Rightarrow>
                      Inr \<lparr>r_status = statusCode, r_success = False, r_message = message,
                           r_error =
                             CodeStatus code statusCode
                               (if node_env = ''development''
                                  then Some \<lparr>dd_stack = e_stack error, dd_name = e_name error,
                                             dd_originalMessage = e_message error,
                                             dd_code = e_code error\<rparr>
                                  else None),
                           r_statusCode = None\<rparr>)))"

section \<open>utils: JWTUtil\<close>

text \<open>
  The subject of a token (\<^verbatim>\<open>userId, email, role, sellerRole\<close>) and the signed
  payload, which adds \<^verbatim>\<open>type\<close>. A decoded payload is whatever the token carries, so
  its \<open>p_type\<close> is a string.
\<close>

record token_subject =
  p_userId :: string
  p_email :: string
  p_role :: UserRole
  p_sellerRole :: "SellerRole option"

record jwt_payload = token_subject +
  p_type :: string

text \<open>
  The environment of the controllers: the token library (\<^verbatim>\<open>jwt.sign(payload, secret,
  {expiresIn})\<close> and \<^verbatim>\<open>jwt.verify(token, secret)\<close>, \<open>None\<close> when it throws), the password
  hashing library, the static configuration of \<^verbatim>\<open>JWTUtil\<close>, \<^verbatim>\<open>NODE_ENV\<close>, and the two
  kinds of text that the runtime produces: the trace recorded by an error created at a
  source line, and the message of a unique-constraint error. Tokens are opaque to the
  controllers, which only compare them: their type is the parameter \<open>'tok\<close>.
\<close>

record 'tok env =
  jwt_sign :: "jwt_payload \<Rightarrow> string \<Rightarrow> string \<Rightarrow> 'tok"
  jwt_verify :: "'tok \<Rightarrow> string \<Rightarrow> jwt_payload option"
  bcrypt_hash :: "string \<Rightarrow> string"
  bcrypt_compare :: "string \<Rightarrow> string \<Rightarrow> bool"
  accessSecret :: string
  refreshSecret :: string
  accessExpiresIn :: string
  refreshExpiresIn :: string
  node_env :: string
  stack_at :: "nat \<Rightarrow> string"
  unique_message :: string

definition with_type :: "token_subject \<Rightarrow> string \<Rightarrow> jwt_payload" where
  \<comment> \<open>\<^verbatim>\<open>{...payload, type: t}\<close>\<close>
  "with_type payload t =
     \<lparr>p_userId = p_userId payload, p_email = p_email payload, p_role = p_role payload,
      p_sellerRole = p_sellerRole payload, p_type = t\<rparr>"

definition generateAccessToken :: "'tok env \<Rightarrow> token_subject \<Rightarrow> 'tok" where
  "generateAccessToken env payload =
     jwt_sign env (with_type payload ''access'') (accessSecret env) (accessExpiresIn env)"

definition generateRefreshToken :: "'tok env \<Rightarrow> token_subject \<Rightarrow> 'tok" where
  "generateRefreshToken env payload =
     jwt_sign env (with_type payload ''refresh'') (refreshSecret env) (refreshExpiresIn env)"

text \<open>
  Both verifiers catch every error of their \<^verbatim>\<open>try\<close> block, the type mismatch
  included, and throw a plain \<^verbatim>\<open>Error\<close> with a fixed message in its place.
\<close>

definition verifyAccessToken :: "'tok env \<Rightarrow> 'tok \<Rightarrow> app_error + jwt_payload" where
  "verifyAccessToken env token =
     (case jwt_verify env token (accessSecret env) of
        None \<Rightarrow> Inl (new_Error (stack_at env 52) ''Invalid or expired access token'')
      | Some decoded \<Rightarrow>
          if p_type decoded \<noteq> ''access''
            then Inl (new_Error (stack_at env 52) ''Invalid or expired access token'')
          else Inr decoded)"

definition verifyRefreshToken :: "'tok env \<Rightarrow> 'tok \<Rightarrow> app_error + jwt_payload" where
  "verifyRefreshToken env token =
     (case jwt_verify env token (refreshSecret env) of
        None \<Rightarrow> Inl (new_Error (stack_at env 64) ''Invalid or expired refresh token'')
      | Some decoded \<Rightarrow>
          if p_type decoded \<noteq> ''refresh''
            then Inl (new_Error (stack_at env 64) ''Invalid or expired refresh token'')
          else Inr decoded)"

record 'tok token_pair =
  tp_accessToken :: 'tok
  tp_refreshToken :: 'tok

definition generateTokenPair :: "'tok env \<Rightarrow> token_subject \<Rightarrow> 'tok token_pair" where
  "generateTokenPair env payload =
     \<lparr>tp_accessToken = generateAccessToken env payload,
      tp_refreshToken = generateRefreshToken env payload\<rparr>"

text \<open>
  A symbolic token library, for concrete runs: a token is what was signed, the secret
  that signed it, and its issue and expiry times in whole seconds, since the library
  stamps \<^verbatim>\<open>iat\<close> with the clock in seconds and the signature is a function of payload,
  secret and these stamps. Verification at clock \<open>now\<close> (milliseconds) accepts a token
  signed with the same secret that has not reached its expiry. \<open>lifetime\<close> reads a span
  such as \<^verbatim>\<open>'7d'\<close> in seconds.
\<close>

datatype jwt = Jwt jwt_payload string int int

definition symbolic_sign :: "(string \<Rightarrow> int) \<Rightarrow> int \<Rightarrow> jwt_payload \<Rightarrow> string \<Rightarrow> string \<Rightarrow> jwt" where
  "symbolic_sign lifetime now payload secret expiresIn =
     Jwt payload secret (now div 1000) (now div 1000 + lifetime expiresIn)"

definition symbolic_verify :: "int \<Rightarrow> jwt \<Rightarrow> string \<Rightarrow> jwt_payload option" where
  "symbolic_verify now token secret =
     (case token of
        Jwt payload signed_with iat expiry \<Rightarrow>
          if signed_with = secret \<and> now div 1000 < expiry then Some payload else None)"

definition default_span :: "string \<Rightarrow> int" where
  \<comment> \<open>the two lifetimes of the default configuration\<close>
  "default_span s = (if s = ''15m'' then 15 * 60 else if s = ''7d'' then 7 * 24 * 60 * 60 else 0)"

definition line_trace :: "nat \<Rightarrow> string" where
  \<comment> \<open>a trace that names the line of the throwing statement\<close>
  "line_trace line = ''at line '' @ decimal line"

definition symbolic_env :: "int \<Rightarrow> string \<Rightarrow> jwt env" where
  \<comment> \<open>the default configuration of \<^verbatim>\<open>JWTUtil\<close>, at clock \<open>now\<close>\<close>
  "symbolic_env now mode =
     \<lparr>jwt_sign = symbolic_sign default_span now,
      jwt_verify = symbolic_verify now,
      bcrypt_hash = (\<lambda>password. ''hash:'' @ password),
      bcrypt_compare = (\<lambda>password hash. hash = ''hash:'' @ password),
      accessSecret = ''access-secret-key'',
      refreshSecret = ''refresh-secret-key'',
      accessExpiresIn = ''15m'',
      refreshExpiresIn = ''7d'',
      node_env = mode,
      stack_at = line_trace,
      unique_message = ''Unique constraint failed''\<rparr>"

section \<open>controllers: AuthController\<close>

text \<open>
  The two tables the controller uses. A user row has further profile columns that the
  controller only copies into responses; they are left out. Times are milliseconds
  since the epoch, as \<^verbatim>\<open>Date.now()\<close> gives them.
\<close>

record user =
  u_id :: string
  u_email :: string
  u_password :: string
  u_name :: string
  u_role :: UserRole
  u_sellerRole :: "SellerRole option"
  u_status :: UserStatus

record 'tok refresh_row =
  rt_id :: string
  rt_token :: 'tok
  rt_userId :: string
  rt_expiresAt :: int

record 'tok auth_db =
  db_users :: "user list"
  db_refreshTokens :: "'tok refresh_row list"

text \<open>The authenticated user of a request (\<^verbatim>\<open>req.user\<close>), and the same selection of a row.\<close>

record auth_user =
  au_id :: string
  au_email :: string
  au_name :: string
  au_role :: UserRole
  au_sellerRole :: "SellerRole option"
  au_status :: UserStatus

definition select_user :: "user \<Rightarrow> auth_user" where
  "select_user u =
     \<lparr>au_id = u_id u, au_email = u_email u, au_name = u_name u, au_role = u_role u,
      au_sellerRole = u_sellerRole u, au_status = u_status u\<rparr>"

text \<open>
  The authentication middleware that guards the protected routes. \<open>bearer\<close> is the
  token of an \<^verbatim>\<open>Authorization: Bearer\<close> header and \<open>cookie\<close> the \<^verbatim>\<open>accessToken\<close> cookie;
  \<open>None\<close> is a missing or empty one. It returns the user it attaches to the request.
\<close>

definition authenticate ::
  "'tok env \<Rightarrow> 'tok option \<Rightarrow> 'tok option \<Rightarrow> user list \<Rightarrow> app_error + auth_user" where
  "authenticate env bearer cookie all_users =
     (case (case bearer of Some t \<Rightarrow> Some t | None \<Rightarrow> cookie) of
        None \<Rightarrow> Inl (createUnauthorizedError (stack_at env 38) ''Access token required'')
      | Some token \<Rightarrow>
         (case verifyAccessToken env token of
            Inl e \<Rightarrow> Inl e
          | Inr decoded \<Rightarrow>
             (case find (\<lambda>u. u_id u = p_userId decoded) all_users of
                None \<Rightarrow> Inl (createUnauthorizedError (stack_at env 58) ''User not found'')
              | Some u \<Rightarrow>
                  if u_status u \<noteq> ACTIVE then
                    Inl (createUnauthorizedError (stack_at env 62)
                           ''Account is suspended or banned'')
                  else Inr (select_user u))))"

definition subject_of :: "user \<Rightarrow> token_subject" where
  "subject_of u =
     \<lparr>p_userId = u_id u, p_email = u_email u, p_role = u_role u,
      p_sellerRole = u_sellerRole u\<rparr>"

text \<open>
  What a successful handler sends: the message, the user and the token pair of the body
  (when it has them), and the cookies it sets or clears, in order.
\<close>

datatype 'tok cookie = SetCookie string 'tok int | ClearCookie string

record 'tok auth_success =
  s_message :: string
  s_user :: "auth_user option"
  s_tokens :: "'tok token_pair option"
  s_cookies :: "'tok cookie list"

definition seven_days :: int where
  "seven_days = 7 * 24 * 60 * 60 * 1000"

definition fifteen_minutes :: int where
  "fifteen_minutes = 15 * 60 * 1000"

definition token_cookies :: "'tok token_pair \<Rightarrow> 'tok cookie list" where
  "token_cookies pair =
     [SetCookie ''accessToken'' (tp_accessToken pair) fifteen_minutes,
      SetCookie ''refreshToken'' (tp_refreshToken pair) seven_days]"

text \<open>
  The queries on the refresh-token table. \<open>token\<close> is a unique column (the controller
  looks rows up by it with \<^verbatim>\<open>findUnique\<close>), so \<^verbatim>\<open>create\<close> and \<^verbatim>\<open>update\<close> fail with a
  unique-constraint error when another row holds the token; \<open>id\<close> is the primary key.
\<close>

definition findUnique_token :: "'tok \<Rightarrow> 'tok refresh_row list \<Rightarrow> 'tok refresh_row option" where
  "findUnique_token token rows = find (\<lambda>r. rt_token r = token) rows"

definition delete_token :: "string \<Rightarrow> 'tok refresh_row list \<Rightarrow> 'tok refresh_row list" where
  \<comment> \<open>\<^verbatim>\<open>refreshToken.delete({where: {id}})\<close>\<close>
  "delete_token rid rows = filter (\<lambda>r. rt_id r \<noteq> rid) rows"

definition deleteMany_token_user ::
  "'tok \<Rightarrow> string \<Rightarrow> 'tok refresh_row list \<Rightarrow> 'tok refresh_row list" where
  \<comment> \<open>\<^verbatim>\<open>refreshToken.deleteMany({where: {token, userId}})\<close>\<close>
  "deleteMany_token_user token uid rows =
     filter (\<lambda>r. \<not> (rt_token r = token \<and> rt_userId r = uid)) rows"

definition deleteMany_user :: "string \<Rightarrow> 'tok refresh_row list \<Rightarrow> 'tok refresh_row list" where
  \<comment> \<open>\<^verbatim>\<open>refreshToken.deleteMany({where: {userId}})\<close>\<close>
  "deleteMany_user uid rows = filter (\<lambda>r. rt_userId r \<noteq> uid) rows"

definition create_token ::
  "'tok env \<Rightarrow> nat \<Rightarrow> 'tok refresh_row \<Rightarrow> 'tok refresh_row list
     \<Rightarrow> app_error + 'tok refresh_row list" where
  "create_token env line row rows =
     (if list_ex (\<lambda>r. rt_token r = rt_token row) rows
        then Inl (unique_violation (stack_at env line) (unique_message env) [''token''])
      else Inr (rows @ [row]))"

definition update_token ::
  "'tok env \<Rightarrow> nat \<Rightarrow> string \<Rightarrow> 'tok \<Rightarrow> int \<Rightarrow> 'tok refresh_row list
     \<Rightarrow> app_error + 'tok refresh_row list" where
  \<comment> \<open>\<^verbatim>\<open>refreshToken.update({where: {id}, data: {token, expiresAt}})\<close>\<close>
  "update_token env line rid token expiresAt rows =
     (if list_ex (\<lambda>r. rt_id r \<noteq> rid \<and> rt_token r = token) rows
        then Inl (unique_violation (stack_at env line) (unique_message env) [''token''])
      else Inr (map (\<lambda>r. if rt_id r = rid
                            then r\<lparr>rt_token := token, rt_expiresAt := expiresAt\<rparr>
                          else r) rows))"

text \<open>
  The handlers. Each returns what it passes to \<^verbatim>\<open>next(error)\<close> (\<open>Inl\<close>) or what it
  sends (\<open>Inr\<close>), together with the tables as it leaves them. The numbers given to
  \<open>stack_at\<close> are the lines of the throwing statements. \<open>now\<close> is the clock where the
  handler reads it.
\<close>

definition login ::
  "'tok env \<Rightarrow> int \<Rightarrow> string \<Rightarrow> string \<Rightarrow> string \<Rightarrow> 'tok auth_db
     \<Rightarrow> (app_error + 'tok auth_success) \<times> 'tok auth_db" where
  "login env now new_id email password db =
     (case find (\<lambda>u. u_email u = email) (db_users db) of
        None \<Rightarrow>
          (Inl (createUnauthorizedError (stack_at env 744) ''Invalid email or password''), db)
      | Some user \<Rightarrow>
          if u_status user \<noteq> ACTIVE then
            (Inl (createUnauthorizedError (stack_at env 749)
                    ''Account is suspended or banned''), db)
          else if \<not> bcrypt_compare env password (u_password user) then
            (Inl (createUnauthorizedError (stack_at env 755) ''Invalid email or password''), db)
          else
            (let pair = generateTokenPair env (subject_of user)
             in case create_token env 767
                       \<lparr>rt_id = new_id, rt_token = tp_refreshToken pair,
                        rt_userId = u_id user, rt_expiresAt = now + seven_days\<rparr>
                       (db_refreshTokens db) of
                  Inl e \<Rightarrow> (Inl e, db)
                | Inr rows \<Rightarrow>
                    (Inr \<lparr>s_message = ''Login successful'',
                          s_user = Some (select_user user),
                          s_tokens = Some pair,
                          s_cookies = token_cookies pair\<rparr>,
                     db\<lparr>db_refreshTokens := rows\<rparr>)))"

text \<open>
  \<^verbatim>\<open>refreshToken\<close>: \<open>now\<close> is the clock of the expiry test (\<^verbatim>\<open>new Date()\<close>) and
  \<open>now'\<close> the clock when the row is updated (\<^verbatim>\<open>Date.now()\<close>). The row's user is a
  required relation; were it missing, reading its \<^verbatim>\<open>status\<close> would throw.
\<close>

definition refreshToken ::
  "'tok env \<Rightarrow> int \<Rightarrow> int \<Rightarrow> 'tok \<Rightarrow> 'tok auth_db
     \<Rightarrow> (app_error + 'tok auth_success) \<times> 'tok auth_db" where
  "refreshToken env now now' token db =
     (case verifyRefreshToken env token of
        Inl e \<Rightarrow> (Inl e, db)
      | Inr decoded \<Rightarrow>
         (case findUnique_token token (db_refreshTokens db) of
            None \<Rightarrow>
              (Inl (createUnauthorizedError (stack_at env 833) ''Invalid refresh token''), db)
          | Some tokenRecord \<Rightarrow>
              if rt_expiresAt tokenRecord < now then
                (Inl (createUnauthorizedError (stack_at env 842) ''Refresh token expired''),
                 db\<lparr>db_refreshTokens :=
                       delete_token (rt_id tokenRecord) (db_refreshTokens db)\<rparr>)
              else
                (case find (\<lambda>u. u_id u = rt_userId tokenRecord) (db_users db) of
                   None \<Rightarrow>
                     (Inl ((new_Error (stack_at env 846)
                              ''Cannot read properties of null (reading 'status')'')
                             \<lparr>e_name := Some ''TypeError''\<rparr>), db)
                 | Some user \<Rightarrow>
                     if u_status user \<noteq> ACTIVE then
                       (Inl (createUnauthorizedError (stack_at env 847)
                               ''Account is suspended or banned''), db)
                     else
                       (let pair = generateTokenPair env (subject_of user)
                        in case update_token env 859 (rt_id tokenRecord)
                                  (tp_refreshToken pair) (now' + seven_days)
                                  (db_refreshTokens db) of
                             Inl e \<Rightarrow> (Inl e, db)
                           | Inr rows \<Rightarrow>
                               (Inr \<lparr>s_message = ''Token refreshed successfully'',
                                     s_user = Some (select_user user),
                                     s_tokens = Some pair,
                                     s_cookies = token_cookies pair\<rparr>,
                                db\<lparr>db_refreshTokens := rows\<rparr>)))))"

text \<open>
  \<^verbatim>\<open>logout\<close> reads the token from the cookie; \<open>None\<close> is a missing or empty cookie,
  which \<^verbatim>\<open>if (refreshToken)\<close> skips.
\<close>

definition cleared :: "'tok cookie list" where
  "cleared = [ClearCookie ''accessToken'', ClearCookie ''refreshToken'']"

definition logout ::
  "auth_user \<Rightarrow> 'tok option \<Rightarrow> 'tok auth_db
     \<Rightarrow> (app_error + 'tok auth_success) \<times> 'tok auth_db" where
  "logout user cookie db =
     (let db' = (case cookie of
                   None \<Rightarrow> db
                 | Some token \<Rightarrow>
                     db\<lparr>db_refreshTokens :=
                          deleteMany_token_user token (au_id user) (db_refreshTokens db)\<rparr>)
      in (Inr \<lparr>s_message = ''Logged out successfully'', s_user = None, s_tokens = None,
               s_cookies = cleared\<rparr>, db'))"

definition logoutAll ::
  "auth_user \<Rightarrow> 'tok auth_db \<Rightarrow> (app_error + 'tok auth_success) \<times> 'tok auth_db" where
  "logoutAll user db =
     (Inr \<lparr>s_message = ''Logged out from all devices successfully'', s_user = None,
           s_tokens = None, s_cookies = cleared\<rparr>,
      db\<lparr>db_refreshTokens := deleteMany_user (au_id user) (db_refreshTokens db)\<rparr>)"

definition changePassword ::
  "'tok env \<Rightarrow> auth_user \<Rightarrow> string \<Rightarrow> string \<Rightarrow> 'tok auth_db
     \<Rightarrow> (app_error + 'tok auth_success) \<times> 'tok auth_db" where
  "changePassword env req_user currentPassword newPassword db =
     (let userId = au_id req_user
      in case find (\<lambda>u. u_id u = userId) (db_users db) of
           None \<Rightarrow> (Inl (createNotFoundError (stack_at env 952) ''User''), db)
         | Some user \<Rightarrow>
             if \<not> bcrypt_compare env currentPassword (u_password user) then
               (Inl (createUnauthorizedError (stack_at env 958)
                       ''Current password is incorrect''), db)
             else
               (let hashedNewPassword = bcrypt_hash env newPassword
                in (Inr \<lparr>s_message = ''Password changed successfully. Please login again.'',
                         s_user = None, s_tokens = None, s_cookies = cleared\<rparr>,
                    db\<lparr>db_users :=
                          map (\<lambda>u. if u_id u = userId
                                     then u\<lparr>u_password := hashedNewPassword\<rparr> else u)
                            (db_users db),
                        db_refreshTokens :=
                          deleteMany_user userId (db_refreshTokens db)\<rparr>)))"

text \<open>
  The response of an endpoint whose handler failed: the error goes through the
  centralized handler.
\<close>

definition failure_response ::
  "'tok env \<Rightarrow> (app_error + 'ok) \<Rightarrow> (handler_failure + error_response) option" where
  "failure_response env result =
     (case result of Inl e \<Rightarrow> Some (errorHandler (node_env env) e) | Inr ok \<Rightarrow> None)"

section \<open>controllers: ProductController.deleteProduct\<close>

text \<open>
  A product row with the columns the controller writes, and the order items that may
  reference it. \<open>trace\<close> gives the trace recorded at a source line.
\<close>

record product =
  pr_id :: string
  pr_title :: string
  pr_description :: string
  pr_price :: real
  pr_discountPrice :: "real option"
  pr_discountEndDate :: "int option"
  pr_stock :: int
  pr_sku :: string
  pr_categoryId :: string
  pr_sellerId :: string
  pr_images :: "string list"
  pr_video :: "string option"
  pr_isActive :: bool

record order_item =
  oi_orderId :: string
  oi_productId :: string
  oi_quantity :: int
  oi_price :: real

record catalog_db =
  db_products :: "product list"
  db_orderItems :: "order_item list"

definition deleteProduct ::
  "(nat \<Rightarrow> string) \<Rightarrow> auth_user \<Rightarrow> string \<Rightarrow> catalog_db \<Rightarrow> (app_error + string) \<times> catalog_db" where
  "deleteProduct trace req_user pid db =
     (let userId = au_id req_user
      in if \<not> canManageProducts (au_role req_user) (au_sellerRole req_user) then
           (Inl (createForbiddenError (trace 354)
                   ''You do not have permission to manage products''), db)
         else
           (case find (\<lambda>p. pr_id p = pid) (db_products db) of
              None \<Rightarrow> (Inl (createNotFoundError (trace 363) ''Product''), db)
            | Some existingProduct \<Rightarrow>
                if au_role req_user = SELLER \<and> pr_sellerId existingProduct \<noteq> userId then
                  (Inl (createForbiddenError (trace 368)
                          ''You can only delete your own products''), db)
                else
                  (let orderCount =
                         length (filter (\<lambda>i. oi_productId i = pid) (db_orderItems db))
                   in if orderCount > 0 then
                        (Inr ''Product deactivated successfully (has existing orders)'',
                         db\<lparr>db_products :=
                               map (\<lambda>p. if pr_id p = pid then p\<lparr>pr_isActive := False\<rparr> else p)
                                 (db_products db)\<rparr>)
                      else
                        (Inr ''Product deleted successfully'',
                         db\<lparr>db_products :=
                               filter (\<lambda>p. pr_id p \<noteq> pid) (db_products db)\<rparr>))))"

section \<open>sockets: the order-status-update handler\<close>

text \<open>
  The order table, the status-history table, the connected user, the event's data and
  what the handler emits: to the sending socket or to a room. \<open>now\<close> is the clock read
  for the notification's id (\<^verbatim>\<open>Date.now()\<close>) and \<open>created\<close> the one read for its
  \<^verbatim>\<open>createdAt\<close>. The handler's only access to the tables is one \<^verbatim>\<open>findUnique\<close>
  on the orders.
\<close>

record order_row =
  o_id :: string
  o_orderNumber :: string
  o_status :: string
  o_buyerId :: string
  o_sellerId :: string

record status_entry =
  h_orderId :: string
  h_status :: string
  h_notes :: "string option"

record order_db =
  db_orders :: "order_row list"
  db_statusHistory :: "status_entry list"

record socket_user =
  su_id :: string
  su_name :: string
  su_role :: UserRole

record status_update =
  d_orderId :: string
  d_status :: string
  d_notes :: "string option"

record notification_data =
  nd_orderId :: string
  nd_orderNumber :: string
  nd_status :: string
  nd_notes :: "string option"

record socket_notification =
  n_id :: string
  n_title :: string
  n_message :: string
  n_type :: string
  n_userId :: string
  n_data :: notification_data
  n_createdAt :: int

datatype socket_event =
    ErrorEvent string
  | NotificationEvent socket_notification
  | OrderUpdated string string "string option"
  | OrderStatusUpdated bool string string

datatype emission = ToSender socket_event | ToRoom string socket_event

definition order_status_update ::
  "nat \<Rightarrow> int \<Rightarrow> socket_user \<Rightarrow> status_update \<Rightarrow> order_db
     \<Rightarrow> emission list \<times> order_db" where
  "order_status_update now created user data db =
     (if su_role user \<noteq> SELLER \<and> su_role user \<noteq> ADMIN then
        ([ToSender (ErrorEvent ''Unauthorized'')], db)
      else
        (case find (\<lambda>row. o_id row = d_orderId data) (db_orders db) of
           None \<Rightarrow> ([ToSender (ErrorEvent ''Order not found'')], db)
         | Some order \<Rightarrow>
             if su_role user = SELLER \<and> o_sellerId order \<noteq> su_id user then
               ([ToSender (ErrorEvent ''Unauthorized'')], db)
             else
               (let notification =
                      \<lparr>n_id = ''notif_'' @ decimal now,
                       n_title = ''Order Status Updated'',
                       n_message = ''Your order #'' @ o_orderNumber order
                                     @ '' status has been updated to '' @ d_status data,
                       n_type = ''order_status'',
                       n_userId = o_buyerId order,
                       n_data = \<lparr>nd_orderId = o_id order,
                                  nd_orderNumber = o_orderNumber order,
                                  nd_status = d_status data, nd_notes = d_notes data\<rparr>,
                       n_createdAt = created\<rparr>
                in ([ToRoom (''user_'' @ o_buyerId order) (NotificationEvent notification),
                     ToRoom (''user_'' @ o_buyerId order)
                       (OrderUpdated (o_id order) (d_status data) (d_notes data)),
                     ToSender (OrderStatusUpdated True (o_id order) (d_status data))],
                    db))))"

section \<open>Sample data for concrete runs\<close>

text \<open>
  One active buyer, and the tables after she logs in at clock \<open>0\<close> under the symbolic
  token library with the default configuration.
\<close>

definition alice :: user where
  "alice =
     \<lparr>u_id = ''u1'', u_email = ''alice@example.com'', u_password = ''hash:Secret#123'',
      u_name = ''Alice'', u_role = BUYER, u_sellerRole = None, u_status = ACTIVE\<rparr>"

definition alice_token :: "int \<Rightarrow> jwt" where
  \<comment> \<open>her refresh token, when it is generated at clock \<open>t\<close>\<close>
  "alice_token t = generateRefreshToken (symbolic_env t ''production'') (subject_of alice)"

definition db_after_login :: "jwt auth_db" where
  "db_after_login =
     snd (login (symbolic_env 0 ''production'') 0 ''rt1'' ''alice@example.com'' ''Secret#123''
            \<lparr>db_users = [alice], db_refreshTokens = []\<rparr>)"

text \<open>
  A seller with the manager sub-role and her two products, one of which has been
  ordered; and that order, placed by Alice, with the history entry of its creation.
\<close>

definition sam :: auth_user where
  "sam =
     \<lparr>au_id = ''u2'', au_email = ''sam@example.com'', au_name = ''Sam'', au_role = SELLER,
      au_sellerRole = Some MANAGER, au_status = ACTIVE\<rparr>"

definition mug :: product where
  "mug =
     \<lparr>pr_id = ''p1'', pr_title = ''Mug'', pr_description = ''A mug'', pr_price = 250,
      pr_discountPrice = None, pr_discountEndDate = None, pr_stock = 12, pr_sku = ''MUGKI-1'',
      pr_categoryId = ''c1'', pr_sellerId = ''u2'', pr_images = [''https://img.example/mug''],
      pr_video = None, pr_isActive = True\<rparr>"

definition lamp :: product where
  "lamp =
     \<lparr>pr_id = ''p2'', pr_title = ''Lamp'', pr_description = ''A lamp'', pr_price = 900,
      pr_discountPrice = Some 800, pr_discountEndDate = None, pr_stock = 3,
      pr_sku = ''LAMHO-1'', pr_categoryId = ''c2'', pr_sellerId = ''u2'',
      pr_images = [''https://img.example/lamp''], pr_video = None, pr_isActive = True\<rparr>"

definition shop :: catalog_db where
  "shop =
     \<lparr>db_products = [mug, lamp],
      db_orderItems = [\<lparr>oi_orderId = ''o1'', oi_productId = ''p1'', oi_quantity = 2,
                        oi_price = 250\<rparr>]\<rparr>"

definition sam_socket :: socket_user where
  "sam_socket = \<lparr>su_id = ''u2'', su_name = ''Sam'', su_role = SELLER\<rparr>"

definition order_o1 :: order_row where
  "order_o1 =
     \<lparr>o_id = ''o1'', o_orderNumber = ''ORD-1'', o_status = ''PENDING_APPROVAL'',
      o_buyerId = ''u1'', o_sellerId = ''u2''\<rparr>"

definition orders :: order_db where
  "orders =
     \<lparr>db_orders = [order_o1],
      db_statusHistory = [\<lparr>h_orderId = ''o1'', h_status = ''PENDING_APPROVAL'',
                           h_notes = Some ''Order placed successfully''\<rparr>]\<rparr>"

definition to_processing :: status_update where
  "to_processing = \<lparr>d_orderId = ''o1'', d_status = ''PROCESSING'', d_notes = None\<rparr>"

section \<open>Properties\<close>

subsection \<open>Seller sub-role gating\<close>

text \<open>
  Claim C4. For every pair of a role and a seller sub-role: managing products is allowed
  exactly to ADMIN and to a SELLER who is MANAGER or INVENTORY_STAFF; managing orders
  exactly to ADMIN and to a SELLER who is MANAGER; viewing financials exactly to ADMIN and
  to a SELLER who is MANAGER or ACCOUNTANT; managing users exactly to ADMIN.
\<close>

theorem permission_table:
  "canManageProducts role sr =
     (role = ADMIN \<or> (role = SELLER \<and> (sr = Some MANAGER \<or> sr = Some INVENTORY_STAFF)))
   \<and> canManageOrders role sr = (role = ADMIN \<or> (role = SELLER \<and> sr = Some MANAGER))
   \<and> canViewFinancials role sr =
     (role = ADMIN \<or> (role = SELLER \<and> (sr = Some MANAGER \<or> sr = Some ACCOUNTANT)))
   \<and> canManageUsers role = (role = ADMIN)"
  by (simp add: canManageProducts_def canManageOrders_def canViewFinancials_def
        canManageUsers_def)

subsection \<open>Password strength\<close>







subsection \<open>Pagination\<close>

text \<open>
  The exponent that \<open>ilog2_frac\<close> computes is that of the leading bit of the fraction, and
  \<open>round_half_even\<close> is within a half of the exact quotient.
\<close>

lemma pow2_ratio:
  "real_of_int (2 ^ nat k) / real_of_int (2 ^ nat (- k)) = 2 powi k"
proof (cases "0 \<le> k")
  case True
  then show ?thesis by (simp add: power_int_def)
next
  case False
  then show ?thesis by (simp add: power_int_def field_simps)
qed

lemma bitlen_real_bounds:
  assumes "0 < a"
  shows "2 powi (bitlen a - 1) \<le> real_of_int a" and "real_of_int a < 2 powi (bitlen a)"
proof -
  from bitlen_bounds [OF assms] have 1: "2 ^ nat (bitlen a - 1) \<le> a" and 2: "a < 2 ^ nat (bitlen a)"
    by simp_all
  have p: "1 \<le> bitlen a" using assms bitlen_eq_zero_iff [of a] bitlen_nonneg [of a] by linarith
  from 1 have "real_of_int (2 ^ nat (bitlen a - 1)) \<le> real_of_int a" by (simp only: of_int_le_iff)
  then show "2 powi (bitlen a - 1) \<le> real_of_int a" using p by (simp add: power_int_def)
  from 2 have "real_of_int a < real_of_int (2 ^ nat (bitlen a))" by (simp only: of_int_less_iff)
  then show "real_of_int a < 2 powi (bitlen a)" using p by (simp add: power_int_def)
qed

lemma scaled_le_iff:
  assumes "0 < b"
  shows "(b * 2 ^ nat d \<le> a * 2 ^ nat (- d)) = (2 powi d \<le> real_of_int a / real_of_int b)"
proof -
  have "(b * 2 ^ nat d \<le> a * 2 ^ nat (- d))
      = (real_of_int (b * 2 ^ nat d) \<le> real_of_int (a * 2 ^ nat (- d)))"
    by (simp only: of_int_le_iff)
  also have "\<dots> = (real_of_int (2 ^ nat d) / real_of_int (2 ^ nat (- d)) \<le> real_of_int a / real_of_int b)"
    using assms by (simp add: field_simps)
  finally show ?thesis by (simp only: pow2_ratio)
qed

lemma ilog2_frac_bounds:
  assumes "0 < a" and "0 < b"
  shows "2 powi (ilog2_frac a b) \<le> real_of_int a / real_of_int b"
    and "real_of_int a / real_of_int b < 2 powi (ilog2_frac a b + 1)"
proof -
  let ?d = "bitlen a - bitlen b"
  let ?q = "real_of_int a / real_of_int b"
  have rb: "0 < real_of_int b" using assms by simp
  have up: "?q < 2 powi (?d + 1)"
  proof -
    have "real_of_int a < 2 powi (bitlen a)" by (rule bitlen_real_bounds [OF assms(1)])
    moreover have "2 powi (bitlen b - 1) \<le> real_of_int b" by (rule bitlen_real_bounds [OF assms(2)])
    moreover have "(2::real) powi (bitlen a) = 2 powi (?d + 1) * 2 powi (bitlen b - 1)"
      by (simp add: power_int_add [symmetric])
    moreover have "(2::real) powi (?d + 1) * 2 powi (bitlen b - 1)
                     \<le> 2 powi (?d + 1) * real_of_int b"
      by (rule mult_left_mono [OF bitlen_real_bounds(1) [OF assms(2)]]) simp
    ultimately have "real_of_int a < 2 powi (?d + 1) * real_of_int b"
      by linarith
    then show ?thesis using rb by (simp add: pos_divide_less_eq)
  qed
  have lo: "2 powi (?d - 1) \<le> ?q"
  proof -
    have "2 powi (bitlen a - 1) \<le> real_of_int a" by (rule bitlen_real_bounds [OF assms(1)])
    moreover have "real_of_int b < 2 powi (bitlen b)" by (rule bitlen_real_bounds [OF assms(2)])
    moreover have "(2::real) powi (bitlen a - 1) = 2 powi (?d - 1) * 2 powi (bitlen b)"
      by (simp add: power_int_add [symmetric])
    moreover have "(2::real) powi (?d - 1) * real_of_int b
                     \<le> 2 powi (?d - 1) * 2 powi (bitlen b)"
      by (rule mult_left_mono [OF less_imp_le [OF bitlen_real_bounds(2) [OF assms(2)]]]) simp
    ultimately have "2 powi (?d - 1) * real_of_int b \<le> real_of_int a"
      by linarith
    then show ?thesis using rb by (simp add: pos_le_divide_eq)
  qed
  show "2 powi (ilog2_frac a b) \<le> ?q"
    using lo scaled_le_iff [OF assms(2), of ?d a]
    by (simp add: ilog2_frac_def Let_def)
  show "?q < 2 powi (ilog2_frac a b + 1)"
    using up scaled_le_iff [OF assms(2), of ?d a]
    by (auto simp add: ilog2_frac_def Let_def)
qed

lemma round_half_even_error:
  assumes "0 < d"
  shows "\<bar>real_of_int (round_half_even n d) - real_of_int n / real_of_int d\<bar> \<le> 1 / 2"
proof -
  let ?f = "n div d" and ?r = "n mod d"
  have n: "real_of_int n = real_of_int d * real_of_int ?f + real_of_int ?r"
    by (metis mult_div_mod_eq of_int_add of_int_mult)
  have r: "0 \<le> ?r" "?r < d" using assms by simp_all
  have q: "real_of_int n / real_of_int d = real_of_int ?f + real_of_int ?r / real_of_int d"
    using assms by (simp add: n field_simps)
  have c1: "2 * ?r < d \<Longrightarrow> real_of_int ?r / real_of_int d \<le> 1 / 2"
    using assms by (auto simp: field_simps)
  have c2: "d < 2 * ?r \<Longrightarrow> 1 / 2 \<le> real_of_int ?r / real_of_int d"
    using assms by (auto simp: field_simps)
  have c3: "\<not> 2 * ?r < d \<Longrightarrow> \<not> d < 2 * ?r \<Longrightarrow> real_of_int ?r / real_of_int d = 1 / 2"
    using assms by (auto simp: field_simps)
  have c4: "0 \<le> real_of_int ?r / real_of_int d" "real_of_int ?r / real_of_int d < 1"
    using assms r by simp_all
  consider (lo) "2 * ?r < d" | (hi) "d < 2 * ?r" | (tie) "\<not> 2 * ?r < d" "\<not> d < 2 * ?r"
    by blast
  then show ?thesis
  proof cases
    case lo
    then have "round_half_even n d = ?f" by (simp add: round_half_even_def Let_def)
    with c1 [OF lo] c4 show ?thesis unfolding q by simp
  next
    case hi
    then have "round_half_even n d = ?f + 1" by (simp add: round_half_even_def Let_def)
    with c2 [OF hi] c4 show ?thesis unfolding q by simp
  next
    case tie
    then have "round_half_even n d = ?f \<or> round_half_even n d = ?f + 1"
      by (simp add: round_half_even_def Let_def)
    with c3 [OF tie] show ?thesis unfolding q by auto
  qed
qed

lemma round_half_even_exact:
  assumes "0 < d" and "d dvd n"
  shows "round_half_even n d = n div d"
  using assms by (simp add: round_half_even_def Let_def)


lemma powi_53: "(2::real) powi 53 = 2 ^ 53"
  by (simp add: power_int_def)

lemma ilog2_upper:
  assumes "0 < a" and "0 < b" and "real_of_int a / real_of_int b < 2 ^ 53"
  shows "ilog2_frac a b \<le> 52"
proof -
  have "(2::real) powi (ilog2_frac a b) < 2 powi 53"
    using ilog2_frac_bounds(1) [OF assms(1,2)] assms(3) by (simp add: powi_53)
  then have "ilog2_frac a b < 53"
    by (rule power_int_le_imp_less_exp [rotated]) simp_all
  then show ?thesis by simp
qed

lemma ilog2_lower:
  assumes "0 < a" and "0 < b" and "2 powi k \<le> real_of_int a / real_of_int b"
  shows "k \<le> ilog2_frac a b"
proof (rule ccontr)
  assume "\<not> k \<le> ilog2_frac a b"
  then have "ilog2_frac a b + 1 \<le> k" by simp
  then have "(2::real) powi (ilog2_frac a b + 1) \<le> 2 powi k"
    by (rule power_int_increasing) simp
  with ilog2_frac_bounds(2) [OF assms(1,2)] assms(3) show False by simp
qed

text \<open>
  Every whole number of magnitude up to \<open>2\<^sup>5\<^sup>3\<close> is a binary64 value: an operation whose
  exact result is one of them returns it unrounded.
\<close>

lemma round_int_pow53: "round_int (2 ^ 53) = Finite (2 ^ 53)" "round_int (- (2 ^ 53)) = Finite (- (2 ^ 53))"
  by code_simp+

lemma round_int_exact:
  assumes "\<bar>n\<bar> \<le> 2 ^ 53"
  shows "round_int n = Finite n"
proof -
  consider (zero) "n = 0" | (top) "\<bar>n\<bar> = 2 ^ 53" | (mid) "n \<noteq> 0" "\<bar>n\<bar> < 2 ^ 53"
    using assms by linarith
  then show ?thesis
  proof cases
    case zero
    then show ?thesis by (simp add: round_int_def)
  next
    case top
    then have "n = 2 ^ 53 \<or> n = - (2 ^ 53)" by linarith
    then show ?thesis using round_int_pow53 by auto
  next
    case mid
    let ?a = "\<bar>n\<bar>"
    let ?L = "ilog2_frac ?a 1"
    have a: "0 < ?a" using mid by simp
    have r: "real_of_int ?a < 2 ^ 53"
      using mid(2) by (metis of_int_less_numeral_power_cancel_iff)
    have up: "?L \<le> 52" using ilog2_upper [of ?a 1] a r by simp
    have lo: "0 \<le> ?L" using ilog2_lower [of ?a 1 0] a by simp
    have e: "max (?L - 52) (- 1074) = ?L - 52" using lo by simp
    have ne: "nat (?L - 52) = 0" using up by simp
    have td: "to_double ?a 1 = (?a * 2 ^ nat (52 - ?L), ?L - 52)"
      by (simp add: to_double_def Let_def e ne round_half_even_exact del: abs_of_nonneg)
    have "(2::int) ^ 53 \<le> 2 ^ 1024" by (rule power_increasing) simp_all
    with mid(2) have small: "\<not> (2 ^ 1024 \<le> ?a)" by (meson less_le_trans not_le)
    have sg: "sgn n * ?a = n" by (simp add: abs_sgn mult.commute)
    show ?thesis
      using mid(1) small sg
      by (simp add: round_int_def td ne Let_def)
  qed
qed


text \<open>
  For whole numbers \<open>a\<close> and \<open>b\<close> below \<open>2\<^sup>5\<^sup>3\<close> the rounded quotient \<open>a / b\<close> is
  nearer to the exact one than \<open>1 / b\<close>, while the exact one, when it is not whole, is at
  least \<open>1 / b\<close> away from the next whole number on either side: rounding does not change
  the ceiling.
\<close>

lemma ceiling_between:
  assumes "real_of_int n - 1 < y" and "y \<le> real_of_int n"
  shows "\<lceil>y\<rceil> = n"
  using assms by (simp add: ceiling_unique)

lemma ceil_div_pow2: "- ((- m) div 2 ^ j) = \<lceil>real_of_int m / 2 ^ j\<rceil>"
  using ceiling_divide_eq_div [where ?'a = real, of m "2 ^ j"] by simp

lemma js_ceil_div_exact:
  assumes a0: "0 \<le> a" and a53: "a < 2 ^ 53" and b1: "1 \<le> b" and b53: "b < 2 ^ 53"
  shows "js_ceil_div (Finite a) (Finite b) = Finite \<lceil>real_of_int a / real_of_int b\<rceil>"
proof (cases "a = 0")
  case True
  then show ?thesis using b1 by (simp add: js_ceil_div_def)
next
  case False
  with a0 have a: "0 < a" by simp
  from b1 have b: "0 < b" by simp
  let ?q = "real_of_int a / real_of_int b"
  let ?L = "ilog2_frac a b"
  have ra: "real_of_int a < 2 ^ 53"
    using a53 by (metis of_int_less_numeral_power_cancel_iff)
  have rb: "1 \<le> real_of_int b" using b1 by simp
  have rb53: "real_of_int b < 2 ^ 53"
    using b53 by (metis of_int_less_numeral_power_cancel_iff)
  have q_le: "?q \<le> real_of_int a" using a rb by (simp add: field_simps mult_left_mono)
  then have q53: "?q < 2 ^ 53" using ra by linarith
  have up: "?L \<le> 52" by (rule ilog2_upper [OF a b q53])
  have "(2::real) powi (- 53) \<le> ?q"
  proof -
    have "(2::real) powi (- 53) = 1 / 2 ^ 53" by (simp add: power_int_def field_simps)
    also have "\<dots> \<le> 1 / real_of_int b" using rb rb53 by (simp add: field_simps)
    also have "\<dots> \<le> ?q" using a rb by (simp add: field_simps)
    finally show ?thesis .
  qed
  then have lo: "- 53 \<le> ?L" by (rule ilog2_lower [OF a b])
  define k where "k = nat (52 - ?L)"
  have e: "max (?L - 52) (- 1074) = ?L - 52" using lo by simp
  have ne: "nat (?L - 52) = 0" using up by simp
  have nk: "nat (- (?L - 52)) = k" by (simp add: k_def)
  define m where "m = round_half_even (a * 2 ^ k) b"
  have td: "to_double a b = (m, ?L - 52)"
    by (simp add: to_double_def Let_def e ne m_def k_def)
  have res: "js_ceil_div (Finite a) (Finite b)
               = Finite \<lceil>real_of_int m / real_of_int (2 ^ k)\<rceil>"
    using a b a0 by (simp add: js_ceil_div_def td ne k_def ceil_div_pow2)
  have pk: "real_of_int (2 ^ k) = 2 powi (52 - ?L)"
    using up by (simp add: k_def power_int_def)
  have pk0: "0 < real_of_int (2 ^ k)" by simp
  have err: "\<bar>real_of_int m - real_of_int (a * 2 ^ k) / real_of_int b\<bar> \<le> 1 / 2"
    unfolding m_def by (rule round_half_even_error [OF b])
  have scaled: "real_of_int (a * 2 ^ k) / real_of_int b = ?q * real_of_int (2 ^ k)"
    by simp
  have err': "\<bar>real_of_int m / real_of_int (2 ^ k) - ?q\<bar> \<le> 1 / (2 * real_of_int (2 ^ k))"
  proof -
    have "\<bar>real_of_int m / real_of_int (2 ^ k) - ?q\<bar>
            = \<bar>real_of_int m - ?q * real_of_int (2 ^ k)\<bar> / real_of_int (2 ^ k)"
      using pk0 by (simp add: field_simps abs_divide)
    also have "\<dots> \<le> (1 / 2) / real_of_int (2 ^ k)"
    proof (rule divide_right_mono)
      show "\<bar>real_of_int m - ?q * real_of_int (2 ^ k)\<bar> \<le> 1 / 2"
        using err unfolding scaled .
      show "0 \<le> real_of_int (2 ^ k)" by simp
    qed
    finally show ?thesis by simp
  qed
  have half_ulp: "1 / (2 * real_of_int (2 ^ k)) < 1 / real_of_int b"
  proof -
    have "1 / (2 * real_of_int (2 ^ k)) = 2 powi ?L / 2 ^ 53"
      unfolding pk by (simp add: power_int_diff power_int_def [of _ 52] field_simps)
    also have "\<dots> \<le> ?q / 2 ^ 53"
      using ilog2_frac_bounds(1) [OF a b] by (simp add: divide_right_mono)
    also have "\<dots> < 1 / real_of_int b"
      using ra rb by (simp add: field_simps)
    finally show ?thesis .
  qed
  show ?thesis
  proof (cases "b dvd a")
    case True
    then obtain c where c: "a = b * c" by (rule dvdE)
    have "m = c * 2 ^ k"
      using b by (simp add: m_def c round_half_even_exact)
    then have "real_of_int m / real_of_int (2 ^ k) = real_of_int c" by simp
    moreover have "?q = real_of_int c" using b by (simp add: c)
    ultimately show ?thesis unfolding res by simp
  next
    case False
    define n where "n = \<lceil>?q\<rceil>"
    have nq: "?q \<le> real_of_int n" "real_of_int n - 1 < ?q"
      unfolding n_def by linarith+
    have "a \<le> n * b" using nq(1) b
      by (metis (no_types, opaque_lifting) of_int_le_iff of_int_mult pos_divide_le_eq of_int_0_less_iff)
    moreover have "a \<noteq> n * b" using False by (metis dvd_triv_right)
    ultimately have "a + 1 \<le> n * b" by simp
    then have "real_of_int (a + 1) \<le> real_of_int (n * b)" by (simp only: of_int_le_iff)
    then have g1: "?q + 1 / real_of_int b \<le> real_of_int n"
      using b by (simp add: field_simps)
    have "(n - 1) * b < a" using nq(2) b
      by (metis (no_types, opaque_lifting) of_int_less_iff of_int_mult pos_less_divide_eq of_int_0_less_iff of_int_diff of_int_1)
    then have "(n - 1) * b + 1 \<le> a" by simp
    then have "real_of_int ((n - 1) * b + 1) \<le> real_of_int a" by (simp only: of_int_le_iff)
    then have "real_of_int ((n - 1) * b + 1) / real_of_int b \<le> ?q"
      using b by (intro divide_right_mono) simp_all
    moreover have "real_of_int ((n - 1) * b + 1) / real_of_int b
                     = real_of_int n - 1 + 1 / real_of_int b"
      using b by (simp add: field_simps)
    ultimately have g2: "real_of_int n - 1 + 1 / real_of_int b \<le> ?q" by simp
    let ?y = "real_of_int m / real_of_int (2 ^ k)"
    from err' half_ulp have "\<bar>?y - ?q\<bar> < 1 / real_of_int b" by linarith
    with g1 g2 have "real_of_int n - 1 < ?y" "?y \<le> real_of_int n" by linarith+
    then have "\<lceil>?y\<rceil> = n" by (rule ceiling_between)
    then show ?thesis unfolding res n_def by simp
  qed
qed


text \<open>
  The ceiling of \<open>t / l\<close> is the least number of pages of \<open>l\<close> rows that hold \<open>t\<close> rows.
\<close>

lemma ceil_bounds:
  assumes "0 < (l::int)"
  shows "t \<le> \<lceil>real_of_int t / real_of_int l\<rceil> * l
       \<and> (\<lceil>real_of_int t / real_of_int l\<rceil> - 1) * l < t"
proof -
  let ?x = "real_of_int t / real_of_int l"
  have l: "0 < real_of_int l" using assms by simp
  have "?x \<le> of_int \<lceil>?x\<rceil>" by (rule le_of_int_ceiling)
  then have "real_of_int t \<le> of_int \<lceil>?x\<rceil> * real_of_int l"
    using l pos_divide_le_eq [of "real_of_int l" "real_of_int t"] by blast
  then have a: "t \<le> \<lceil>?x\<rceil> * l"
    by (metis of_int_le_iff of_int_mult)
  have "of_int \<lceil>?x\<rceil> - 1 < ?x" by (rule ceiling_correct [THEN conjunct1])
  then have "(of_int \<lceil>?x\<rceil> - 1) * real_of_int l < real_of_int t"
    using l pos_less_divide_eq [of "real_of_int l" _ "real_of_int t"] by blast
  then have "real_of_int ((\<lceil>?x\<rceil> - 1) * l) < real_of_int t" by simp
  then have b: "(\<lceil>?x\<rceil> - 1) * l < t" by (simp only: of_int_less_iff)
  from a b show ?thesis by simp
qed

text \<open>
  While \<open>page * limit\<close> stays below \<open>2\<^sup>5\<^sup>3\<close> the handler's \<^verbatim>\<open>skip\<close> is computed without
  rounding and the persistence layer accepts it.
\<close>

lemma skip_exact:
  assumes p: "1 \<le> page" and l: "1 \<le> limit" and pl: "page * limit < 2 ^ 53"
  shows "js_mul (js_sub (Finite page) (Finite 1)) (Finite limit)
           = Finite ((page - 1) * limit)"
proof -
  have "page * 1 \<le> page * limit" using p l by (intro mult_left_mono) simp_all
  then have p53: "page < 2 ^ 53" using pl by simp
  have "(page - 1) * limit \<le> page * limit" using p l by (intro mult_right_mono) simp_all
  then have s53: "(page - 1) * limit < 2 ^ 53" using pl by simp
  have s0: "0 \<le> (page - 1) * limit" using p l by simp
  have a: "round_int (page - 1) = Finite (page - 1)"
    using p p53 by (intro round_int_exact) simp
  have b: "round_int ((page - 1) * limit) = Finite ((page - 1) * limit)"
    using s0 s53 by (intro round_int_exact) simp
  show ?thesis by (simp add: js_sub_def js_mul_def a b)
qed

lemma findMany_page:
  assumes "0 \<le> s" and "s < 2 ^ 53" and "1 \<le> limit" and "limit \<le> 100"
  shows "findMany matching (Finite s) (Finite limit)
           = Inr (take (nat limit) (drop (nat s) matching))"
  using assms by (simp add: findMany_def int64_max_def)

lemma count_rows_exact:
  assumes "int (length matching) < 2 ^ 53"
  shows "count_rows matching = Finite (int (length matching))"
  unfolding count_rows_def using assms by (intro round_int_exact) simp

text \<open>
  Claim C7, as amended. For whole numbers: a page at least 1, a limit between 1 and 100
  and a total at least 0, with \<open>page * limit\<close>, the total and the number of matching rows
  all below \<open>2\<^sup>5\<^sup>3\<close> (where the arithmetic of JavaScript numbers is exact), \<open>paginate\<close>
  returns the rows it was given with \<open>totalPages\<close> the ceiling of \<open>total / limit\<close> (the
  least number of pages of \<open>limit\<close> rows that hold \<open>total\<close> rows), \<open>hasNext\<close> true exactly
  when the page is before the last and \<open>hasPrev\<close> true exactly when the page is after the
  first; the list endpoint computes the skip \<open>(page - 1) * limit\<close>, succeeds, and returns
  the rows left after skipping that many of the matching rows, cut to at most \<open>limit\<close>
  rows, with the number of matching rows as the total.
\<close>

theorem pagination_math:
  assumes "1 \<le> page" and "1 \<le> limit" and "limit \<le> 100" and "0 \<le> tot"
    and "page * limit < 2 ^ 53" and "tot < 2 ^ 53" and "int (length matching) < 2 ^ 53"
  shows "m_totalPages (snd (paginate rows (Finite page) (Finite limit) (Finite tot)))
           = Finite \<lceil>real_of_int tot / real_of_int limit\<rceil>
    \<and> tot \<le> \<lceil>real_of_int tot / real_of_int limit\<rceil> * limit
    \<and> (\<lceil>real_of_int tot / real_of_int limit\<rceil> - 1) * limit < tot
    \<and> m_hasNext (snd (paginate rows (Finite page) (Finite limit) (Finite tot)))
         = (page < \<lceil>real_of_int tot / real_of_int limit\<rceil>)
    \<and> m_hasPrev (snd (paginate rows (Finite page) (Finite limit) (Finite tot))) = (page > 1)
    \<and> fst (paginate rows (Finite page) (Finite limit) (Finite tot)) = rows
    \<and> js_mul (js_sub (Finite page) (Finite 1)) (Finite limit) = Finite ((page - 1) * limit)
    \<and> getProducts decorate (Finite page) (Finite limit) matching
         = Inr (paginate
                  (map decorate (take (nat limit) (drop (nat ((page - 1) * limit)) matching)))
                  (Finite page) (Finite limit) (Finite (int (length matching))))
    \<and> length (take (nat limit) (drop (nat ((page - 1) * limit)) matching)) \<le> nat limit"
proof -
  have l: "0 < limit" using assms by simp
  have l53: "limit < 2 ^ 53" using assms by simp
  have cd: "js_ceil_div (Finite tot) (Finite limit)
              = Finite \<lceil>real_of_int tot / real_of_int limit\<rceil>"
    using assms l53 by (intro js_ceil_div_exact) simp_all
  have sk: "js_mul (js_sub (Finite page) (Finite 1)) (Finite limit)
              = Finite ((page - 1) * limit)"
    using assms by (intro skip_exact) simp_all
  have "(page - 1) * limit \<le> page * limit"
    using assms by (intro mult_right_mono) simp_all
  then have s53: "(page - 1) * limit < 2 ^ 53"
    using \<open>page * limit < 2 ^ 53\<close> by (rule le_less_trans)
  have s0: "0 \<le> (page - 1) * limit"
    using \<open>1 \<le> page\<close> \<open>1 \<le> limit\<close> by simp
  have fm: "findMany matching (Finite ((page - 1) * limit)) (Finite limit)
              = Inr (take (nat limit) (drop (nat ((page - 1) * limit)) matching))"
    using s0 s53 assms by (intro findMany_page) simp_all
  have cr: "count_rows matching = Finite (int (length matching))"
    using assms by (intro count_rows_exact) simp
  have gp: "getProducts decorate (Finite page) (Finite limit) matching
         = Inr (paginate
                  (map decorate (take (nat limit) (drop (nat ((page - 1) * limit)) matching)))
                  (Finite page) (Finite limit) (Finite (int (length matching))))"
    using assms by (simp add: getProducts_def js_or_def Let_def sk fm cr)
  have pg: "paginate rows (Finite page) (Finite limit) (Finite tot)
              = (rows, \<lparr>m_page = Finite page, m_limit = Finite limit, m_total = Finite tot,
                        m_totalPages = Finite \<lceil>real_of_int tot / real_of_int limit\<rceil>,
                        m_hasNext = (page < \<lceil>real_of_int tot / real_of_int limit\<rceil>),
                        m_hasPrev = (1 < page)\<rparr>)"
    by (simp add: paginate_def Let_def cd js_less_def)
  show ?thesis
    unfolding pg using ceil_bounds [OF l, of tot] gp sk by simp
qed

text \<open>
  The second page of ten out of twenty-five rows.
\<close>

theorem pagination_math_witness:
  "m_totalPages (snd (paginate [11 .. 20] (Finite 2) (Finite 10) (Finite 25))) = Finite 3
   \<and> m_hasNext (snd (paginate [11 .. 20] (Finite 2) (Finite 10) (Finite 25)))
   \<and> m_hasPrev (snd (paginate [11 .. 20] (Finite 2) (Finite 10) (Finite 25)))
   \<and> getProducts (\<lambda>x. x) (Finite 2) (Finite 10) [1 .. 25]
        = Inr (paginate [11 .. 20] (Finite 2) (Finite 10) (Finite 25))"
proof -
  have u: "[1 .. 25] = [1,2,3,4,5,6,7,8,9,10,11,12,13,14,15,16,17,18,19,20,21,22,23,24,25::int]"
    by code_simp
  have v: "[11 .. 20] = [11,12,13,14,15,16,17,18,19,20::int]"
    by code_simp
  have h: "(1::int) \<le> 2" "(1::int) \<le> 10" "(10::int) \<le> 100" "(0::int) \<le> 25"
    "(2::int) * 10 < 2 ^ 53" "(25::int) < 2 ^ 53" "int (length [1 .. 25]) < 2 ^ 53"
    by (simp_all add: u)
  show ?thesis
    using pagination_math [OF h, of "[11 .. 20]" "\<lambda>x. x"]
    by (simp add: u v)
qed

text \<open>
  Without the bound the claim fails. For page \<open>10\<^sup>1\<^sup>8\<close> and limit 10, \<open>page - 1\<close> rounds
  back to \<open>10\<^sup>1\<^sup>8\<close>, the skip is \<open>10\<^sup>1\<^sup>9\<close> and not \<open>10\<^sup>1\<^sup>9 - 10\<close>, it does not fit a signed
  64-bit integer, and the query is refused: the endpoint returns no page. For a total
  of \<open>2\<^sup>6\<^sup>0\<close> and limit 3, \<open>totalPages\<close> is the ceiling of the rounded quotient, 22 below
  the ceiling of the exact one.
\<close>

theorem pagination_math_counterexample:
  "js_sub (Finite (10 ^ 18)) (Finite 1) = Finite (10 ^ 18)
   \<and> js_mul (js_sub (Finite (10 ^ 18)) (Finite 1)) (Finite 10) = Finite (10 ^ 19)
   \<and> getProducts id (Finite (10 ^ 18)) (Finite 10) [1 .. 25] = Inl InvalidSkip
   \<and> m_totalPages (snd (paginate [1 .. 3] (Finite 1) (Finite 3) (Finite (2 ^ 60))))
        = Finite 384307168202282304
   \<and> \<lceil>real_of_int (2 ^ 60) / real_of_int 3\<rceil> = 384307168202282326"
  by code_simp

subsection \<open>The centralized error handler\<close>

lemma late_rules_id:
  assumes "e_message e \<noteq> Some ''Not allowed by CORS''"
      and "\<not> (\<exists>m. e_message e = Some m \<and> includes_str m ''Too many requests'')"
  shows "rate_limit_rule e (cors_rule e v) = v"
  using assms by (auto simp: rate_limit_rule_def cors_rule_def split: option.splits)

lemma handler_plain:
  assumes "e_name e \<noteq> Some ''ZodError''" and "e_name e \<noteq> Some ''ValidationError''"
      and "e_message e \<noteq> Some ''Not allowed by CORS''"
      and "\<not> (\<exists>m. e_message e = Some m \<and> includes_str m ''Too many requests'')"
      and "network_rule e (multer_rule e (prisma_rule e (jwt_rule e (initial_verdict e)))) = (st, msg, c)"
  shows "errorHandler mode e =
           Inr \<lparr>r_status = st, r_success = False, r_message = msg,
                r_error = CodeStatus c st
                  (if mode = ''development''
                     then Some \<lparr>dd_stack = e_stack e, dd_name = e_name e,
                                dd_originalMessage = e_message e, dd_code = e_code e\<rparr>
                     else None),
                r_statusCode = None\<rparr>"
  using assms(1,2,5) late_rules_id [OF assms(3,4)]
  by (simp add: errorHandler_def Let_def)










subsection \<open>Token types\<close>

lemma verifyAccessToken_Inr:
  "(verifyAccessToken env t = Inr d)
     = (jwt_verify env t (accessSecret env) = Some d \<and> p_type d = ''access'')"
  by (auto simp: verifyAccessToken_def split: option.splits)

lemma verifyRefreshToken_Inr:
  "(verifyRefreshToken env t = Inr d)
     = (jwt_verify env t (refreshSecret env) = Some d \<and> p_type d = ''refresh'')"
  by (auto simp: verifyRefreshToken_def split: option.splits)

lemma symbolic_contract:
  "jwt_verify (symbolic_env now mode) (jwt_sign (symbolic_env now mode) p s x) s' = None
   \<or> jwt_verify (symbolic_env now mode) (jwt_sign (symbolic_env now mode) p s x) s' = Some p"
  by (simp add: symbolic_env_def symbolic_sign_def symbolic_verify_def)

text \<open>
  Claim C8. \<open>verifyAccessToken\<close> returns a payload exactly when the token verifies under
  the access secret and the payload's type is "access", and \<open>verifyRefreshToken\<close> exactly
  when it verifies under the refresh secret and the type is "refresh". Provided the token
  library returns, for a token it signed, either a failure or the payload that was signed,
  a token made by \<open>generateRefreshToken\<close> is rejected by \<open>verifyAccessToken\<close> and a token
  made by \<open>generateAccessToken\<close> is rejected by \<open>verifyRefreshToken\<close>, whatever the two
  secrets are; so the authentication middleware rejects a refresh token, whether it comes
  in the header or in the cookie.
\<close>

theorem token_type_confinement:
  assumes lib: "\<And>p s x s'. jwt_verify env (jwt_sign env p s x) s' = None
                          \<or> jwt_verify env (jwt_sign env p s x) s' = Some p"
  shows "(verifyAccessToken env t = Inr d)
           = (jwt_verify env t (accessSecret env) = Some d \<and> p_type d = ''access'')
       \<and> (verifyRefreshToken env t = Inr d)
           = (jwt_verify env t (refreshSecret env) = Some d \<and> p_type d = ''refresh'')
       \<and> verifyAccessToken env (generateRefreshToken env subject)
           = Inl (new_Error (stack_at env 52) ''Invalid or expired access token'')
       \<and> verifyRefreshToken env (generateAccessToken env subject)
           = Inl (new_Error (stack_at env 64) ''Invalid or expired refresh token'')
       \<and> authenticate env (Some (generateRefreshToken env subject)) cookie all_users
           = Inl (new_Error (stack_at env 52) ''Invalid or expired access token'')
       \<and> authenticate env None (Some (generateRefreshToken env subject)) all_users
           = Inl (new_Error (stack_at env 52) ''Invalid or expired access token'')"
proof -
  have a: "verifyAccessToken env (generateRefreshToken env subject)
           = Inl (new_Error (stack_at env 52) ''Invalid or expired access token'')"
    using lib [of "with_type subject ''refresh''" "refreshSecret env" "refreshExpiresIn env"
                  "accessSecret env"]
    by (auto simp: verifyAccessToken_def generateRefreshToken_def with_type_def)
  have b: "verifyRefreshToken env (generateAccessToken env subject)
           = Inl (new_Error (stack_at env 64) ''Invalid or expired refresh token'')"
    using lib [of "with_type subject ''access''" "accessSecret env" "accessExpiresIn env"
                  "refreshSecret env"]
    by (auto simp: verifyRefreshToken_def generateAccessToken_def with_type_def)
  show ?thesis
    using a b by (simp add: verifyAccessToken_Inr verifyRefreshToken_Inr authenticate_def)
qed

theorem token_type_confinement_witness:
  "verifyAccessToken (symbolic_env 5000 ''production'')
     (generateRefreshToken (symbolic_env 5000 ''production'')
        \<lparr>p_userId = ''u1'', p_email = ''a@b.c'', p_role = BUYER, p_sellerRole = None\<rparr>)
     = Inl (new_Error (line_trace 52) ''Invalid or expired access token'')
   \<and> verifyRefreshToken (symbolic_env 5000 ''production'')
     (generateAccessToken (symbolic_env 5000 ''production'')
        \<lparr>p_userId = ''u1'', p_email = ''a@b.c'', p_role = BUYER, p_sellerRole = None\<rparr>)
     = Inl (new_Error (line_trace 64) ''Invalid or expired refresh token'')
   \<and> verifyRefreshToken (symbolic_env 5000 ''production'')
     (generateRefreshToken (symbolic_env 5000 ''production'')
        \<lparr>p_userId = ''u1'', p_email = ''a@b.c'', p_role = BUYER, p_sellerRole = None\<rparr>)
     = Inr \<lparr>p_userId = ''u1'', p_email = ''a@b.c'', p_role = BUYER, p_sellerRole = None,
            p_type = ''refresh''\<rparr>
   \<and> authenticate (symbolic_env 5000 ''production'')
     (Some (generateRefreshToken (symbolic_env 5000 ''production'')
        \<lparr>p_userId = ''u1'', p_email = ''a@b.c'', p_role = BUYER, p_sellerRole = None\<rparr>))
     None [alice]
     = Inl (new_Error (line_trace 52) ''Invalid or expired access token'')"
proof -
  have s: "stack_at (symbolic_env 5000 ''production'') = line_trace"
    by (simp add: symbolic_env_def)
  have r: "verifyRefreshToken (symbolic_env 5000 ''production'')
     (generateRefreshToken (symbolic_env 5000 ''production'')
        \<lparr>p_userId = ''u1'', p_email = ''a@b.c'', p_role = BUYER, p_sellerRole = None\<rparr>)
     = Inr \<lparr>p_userId = ''u1'', p_email = ''a@b.c'', p_role = BUYER, p_sellerRole = None,
            p_type = ''refresh''\<rparr>"
    by (simp add: verifyRefreshToken_def generateRefreshToken_def symbolic_env_def
          symbolic_sign_def symbolic_verify_def with_type_def default_span_def)
  show ?thesis
    using token_type_confinement
            [of "symbolic_env 5000 ''production''" _ _ _ None "[alice]", OF symbolic_contract]
          r
    by (simp add: s)
qed

subsection \<open>Login failures\<close>

lemma plain_message:
  "e_name (createUnauthorizedError stk ''Invalid email or password'') \<noteq> Some ''ZodError''
   \<and> e_name (createUnauthorizedError stk ''Invalid email or password'') \<noteq> Some ''ValidationError''
   \<and> e_message (createUnauthorizedError stk ''Invalid email or password'') \<noteq> Some ''Not allowed by CORS''
   \<and> \<not> (\<exists>m. e_message (createUnauthorizedError stk ''Invalid email or password'') = Some m
             \<and> includes_str m ''Too many requests'')"
  by (simp add: createUnauthorizedError_def new_Error_def startsWith_def)

lemma unauthorized_response:
  "errorHandler mode (createUnauthorizedError stk ''Invalid email or password'') =
     Inr \<lparr>r_status = 401, r_success = False, r_message = ''Invalid email or password'',
          r_error = CodeStatus (Some ''UNAUTHORIZED'') 401
            (if mode = ''development''
               then Some \<lparr>dd_stack = Some stk, dd_name = Some ''Error'',
                          dd_originalMessage = Some ''Invalid email or password'',
                          dd_code = Some ''UNAUTHORIZED''\<rparr>
               else None),
          r_statusCode = None\<rparr>"
proof -
  have v: "network_rule (createUnauthorizedError stk ''Invalid email or password'')
            (multer_rule (createUnauthorizedError stk ''Invalid email or password'')
              (prisma_rule (createUnauthorizedError stk ''Invalid email or password'')
                (jwt_rule (createUnauthorizedError stk ''Invalid email or password'')
                  (initial_verdict (createUnauthorizedError stk ''Invalid email or password'')))))
           = (401, ''Invalid email or password'', Some ''UNAUTHORIZED'')"
    by (simp add: createUnauthorizedError_def new_Error_def network_rule_def multer_rule_def
          prisma_rule_def jwt_rule_def initial_verdict_def startsWith_def)
  from plain_message [of stk] have p:
    "e_name (createUnauthorizedError stk ''Invalid email or password'') \<noteq> Some ''ZodError''"
    "e_name (createUnauthorizedError stk ''Invalid email or password'') \<noteq> Some ''ValidationError''"
    "e_message (createUnauthorizedError stk ''Invalid email or password'') \<noteq> Some ''Not allowed by CORS''"
    "\<not> (\<exists>m. e_message (createUnauthorizedError stk ''Invalid email or password'') = Some m
             \<and> includes_str m ''Too many requests'')"
    by blast+
  show ?thesis
    using handler_plain [OF p v, of mode]
    by (simp add: createUnauthorizedError_def new_Error_def)
qed

text \<open>
  Claim C9, as amended. A login with an email that is not registered and a login with a
  wrong password for an active account both fail with the same error and leave the tables
  unchanged: through the centralized handler both are answered with status 401, success
  false, the message "Invalid email or password" and the code UNAUTHORIZED, and outside
  development mode the two responses are equal, so the cause cannot be told from the
  response.
\<close>

theorem login_failures_indistinguishable:
  assumes unknown: "find (\<lambda>u. u_email u = email1) (db_users db) = None"
      and known: "find (\<lambda>u. u_email u = email2) (db_users db) = Some user"
      and active: "u_status user = ACTIVE"
      and wrong: "\<not> bcrypt_compare env password2 (u_password user)"
  shows "login env now1 id1 email1 password1 db
           = (Inl (createUnauthorizedError (stack_at env 744) ''Invalid email or password''), db)
       \<and> login env now2 id2 email2 password2 db
           = (Inl (createUnauthorizedError (stack_at env 755) ''Invalid email or password''), db)
       \<and> (\<exists>r1 r2 d1 d2.
             failure_response env (fst (login env now1 id1 email1 password1 db)) = Some (Inr r1)
           \<and> failure_response env (fst (login env now2 id2 email2 password2 db)) = Some (Inr r2)
           \<and> r_status r1 = 401 \<and> r_status r2 = 401
           \<and> r_success r1 = False \<and> r_success r2 = False
           \<and> r_message r1 = ''Invalid email or password''
           \<and> r_message r2 = ''Invalid email or password''
           \<and> r_error r1 = CodeStatus (Some ''UNAUTHORIZED'') 401 d1
           \<and> r_error r2 = CodeStatus (Some ''UNAUTHORIZED'') 401 d2
           \<and> r_statusCode r1 = r_statusCode r2
           \<and> (node_env env \<noteq> ''development'' \<longrightarrow> r1 = r2))"
proof -
  have l1: "login env now1 id1 email1 password1 db
           = (Inl (createUnauthorizedError (stack_at env 744) ''Invalid email or password''), db)"
    using unknown by (simp add: login_def)
  have l2: "login env now2 id2 email2 password2 db
           = (Inl (createUnauthorizedError (stack_at env 755) ''Invalid email or password''), db)"
    using known active wrong by (simp add: login_def)
  show ?thesis
    unfolding l1 l2
    by (simp add: failure_response_def unauthorized_response)
qed

lemmas auth_run =
  login_def refreshToken_def logout_def changePassword_def
  verifyRefreshToken_def verifyAccessToken_def generateTokenPair_def generateAccessToken_def
  generateRefreshToken_def with_type_def subject_of_def select_user_def token_cookies_def
  findUnique_token_def delete_token_def deleteMany_token_user_def deleteMany_user_def
  create_token_def update_token_def symbolic_env_def symbolic_sign_def symbolic_verify_def
  default_span_def seven_days_def fifteen_minutes_def cleared_def
  alice_def alice_token_def db_after_login_def
  createUnauthorizedError_def createNotFoundError_def new_Error_def unique_violation_def

lemma db_after_login_eq:
  "db_after_login =
     \<lparr>db_users = [alice],
      db_refreshTokens =
        [\<lparr>rt_id = ''rt1'', rt_token = alice_token 0, rt_userId = ''u1'',
          rt_expiresAt = 604800000\<rparr>]\<rparr>"
  by (simp add: auth_run)

lemma alice_token_eq:
  "alice_token t =
     Jwt \<lparr>p_userId = ''u1'', p_email = ''alice@example.com'', p_role = BUYER,
          p_sellerRole = None, p_type = ''refresh''\<rparr>
       ''refresh-secret-key'' (t div 1000) (t div 1000 + 604800)"
  by (simp add: auth_run)

theorem login_failures_indistinguishable_witness:
  "login (symbolic_env 7000 ''production'') 7000 ''rt2'' ''bob@example.com'' ''Secret#123''
      db_after_login
     = (Inl (createUnauthorizedError (line_trace 744) ''Invalid email or password''), db_after_login)
   \<and> login (symbolic_env 7000 ''production'') 7000 ''rt2'' ''alice@example.com'' ''guess''
      db_after_login
     = (Inl (createUnauthorizedError (line_trace 755) ''Invalid email or password''), db_after_login)
   \<and> failure_response (symbolic_env 7000 ''production'')
        (fst (login (symbolic_env 7000 ''production'') 7000 ''rt2'' ''bob@example.com''
                ''Secret#123'' db_after_login))
     = failure_response (symbolic_env 7000 ''production'')
        (fst (login (symbolic_env 7000 ''production'') 7000 ''rt2'' ''alice@example.com''
                ''guess'' db_after_login))"
proof -
  have 1: "find (\<lambda>u. u_email u = ''bob@example.com'') (db_users db_after_login) = None"
    by (simp add: db_after_login_eq) (simp add: alice_def)
  have 2: "find (\<lambda>u. u_email u = ''alice@example.com'') (db_users db_after_login) = Some alice"
    by (simp add: db_after_login_eq) (simp add: alice_def)
  have 3: "u_status alice = ACTIVE" by (simp add: alice_def)
  have 4: "\<not> bcrypt_compare (symbolic_env 7000 ''production'') ''guess'' (u_password alice)"
    by (simp add: symbolic_env_def alice_def)
  have 5: "stack_at (symbolic_env 7000 ''production'') = line_trace"
          "node_env (symbolic_env 7000 ''production'') = ''production''"
    by (simp_all add: symbolic_env_def)
  show ?thesis
    using login_failures_indistinguishable [OF 1 2 3 4, of 7000 "''rt2''" "''Secret#123''" 7000 "''rt2''"]
    unfolding 5
    by auto
qed

lemma line_trace_login:
  "line_trace 744 = ''at line 744'' \<and> line_trace 755 = ''at line 755''"
  unfolding line_trace_def by code_simp

text \<open>
  In development mode the claim as stated fails: the body also carries the trace of the
  error, and the two errors are created by different statements.
\<close>

theorem login_failures_indistinguishable_counterexample:
  "failure_response (symbolic_env 7000 ''development'')
     (fst (login (symbolic_env 7000 ''development'') 7000 ''rt2'' ''bob@example.com''
             ''Secret#123'' db_after_login))
     = Some (Inr \<lparr>r_status = 401, r_success = False,
                  r_message = ''Invalid email or password'',
                  r_error = CodeStatus (Some ''UNAUTHORIZED'') 401
                    (Some \<lparr>dd_stack = Some ''at line 744'', dd_name = Some ''Error'',
                           dd_originalMessage = Some ''Invalid email or password'',
                           dd_code = Some ''UNAUTHORIZED''\<rparr>),
                  r_statusCode = None\<rparr>)
   \<and> failure_response (symbolic_env 7000 ''development'')
     (fst (login (symbolic_env 7000 ''development'') 7000 ''rt2'' ''alice@example.com''
             ''guess'' db_after_login))
     = Some (Inr \<lparr>r_status = 401, r_success = False,
                  r_message = ''Invalid email or password'',
                  r_error = CodeStatus (Some ''UNAUTHORIZED'') 401
                    (Some \<lparr>dd_stack = Some ''at line 755'', dd_name = Some ''Error'',
                           dd_originalMessage = Some ''Invalid email or password'',
                           dd_code = Some ''UNAUTHORIZED''\<rparr>),
                  r_statusCode = None\<rparr>)
   \<and> failure_response (symbolic_env 7000 ''development'')
     (fst (login (symbolic_env 7000 ''development'') 7000 ''rt2'' ''bob@example.com''
             ''Secret#123'' db_after_login))
     \<noteq> failure_response (symbolic_env 7000 ''development'')
     (fst (login (symbolic_env 7000 ''development'') 7000 ''rt2'' ''alice@example.com''
             ''guess'' db_after_login))"
proof -
  let ?env = "symbolic_env 7000 ''development''"
  have e: "stack_at ?env = line_trace" "node_env ?env = ''development''"
    by (simp_all add: symbolic_env_def)
  have 1: "login ?env 7000 ''rt2'' ''bob@example.com'' ''Secret#123'' db_after_login
     = (Inl (createUnauthorizedError (line_trace 744) ''Invalid email or password''),
        db_after_login)"
    by (simp add: login_def db_after_login_eq e) (simp add: alice_def)
  have 2: "login ?env 7000 ''rt2'' ''alice@example.com'' ''guess'' db_after_login
     = (Inl (createUnauthorizedError (line_trace 755) ''Invalid email or password''),
        db_after_login)"
    by (simp add: login_def db_after_login_eq e) (simp add: alice_def symbolic_env_def)
  show ?thesis
    unfolding 1 2
    by (simp add: failure_response_def unauthorized_response e line_trace_login)
qed

subsection \<open>Revocation of refresh tokens\<close>

lemma update_token_ids:
  "update_token env line rid tok ex rows = Inr rows' \<Longrightarrow> map rt_id rows' = map rt_id rows"
  by (auto simp: update_token_def split: if_splits)

lemma find_token_Some:
  "findUnique_token token rows = Some tokenRecord \<Longrightarrow> tokenRecord \<in> set rows \<and> rt_token tokenRecord = token"
  unfolding findUnique_token_def by (auto simp: find_Some_iff)

lemma refresh_expired:
  assumes "verifyRefreshToken env token = Inr decoded"
      and "findUnique_token token (db_refreshTokens db) = Some tokenRecord"
      and "rt_expiresAt tokenRecord < now"
  shows "refreshToken env now now' token db =
           (Inl (createUnauthorizedError (stack_at env 842) ''Refresh token expired''),
            db\<lparr>db_refreshTokens := filter (\<lambda>r. rt_id r \<noteq> rt_id tokenRecord) (db_refreshTokens db)\<rparr>)"
  using assms by (simp add: refreshToken_def delete_token_def)

lemma refresh_keeps_rows:
  assumes "\<not> (\<exists>decoded tokenRecord. verifyRefreshToken env token = Inr decoded
              \<and> findUnique_token token (db_refreshTokens db) = Some tokenRecord
              \<and> rt_expiresAt tokenRecord < now)"
  shows "map rt_id (db_refreshTokens (snd (refreshToken env now now' token db)))
           = map rt_id (db_refreshTokens db)"
  using assms
  by (auto simp: refreshToken_def Let_def dest: update_token_ids
           split: sum.splits option.splits if_splits)

lemma expired_response:
  "failure_response env (Inl (createUnauthorizedError stk ''Refresh token expired'')) =
     Some (Inr \<lparr>r_status = 401, r_success = False, r_message = ''Refresh token expired'',
          r_error = CodeStatus (Some ''UNAUTHORIZED'') 401
            (if node_env env = ''development''
               then Some \<lparr>dd_stack = Some stk, dd_name = Some ''Error'',
                          dd_originalMessage = Some ''Refresh token expired'',
                          dd_code = Some ''UNAUTHORIZED''\<rparr>
               else None),
          r_statusCode = None\<rparr>)"
proof -
  let ?e = "createUnauthorizedError stk ''Refresh token expired''"
  have v: "network_rule ?e (multer_rule ?e (prisma_rule ?e (jwt_rule ?e (initial_verdict ?e))))
           = (401, ''Refresh token expired'', Some ''UNAUTHORIZED'')"
    by (simp add: createUnauthorizedError_def new_Error_def network_rule_def multer_rule_def
          prisma_rule_def jwt_rule_def initial_verdict_def startsWith_def)
  have p: "e_name ?e \<noteq> Some ''ZodError''" "e_name ?e \<noteq> Some ''ValidationError''"
    "e_message ?e \<noteq> Some ''Not allowed by CORS''"
    "\<not> (\<exists>m. e_message ?e = Some m \<and> includes_str m ''Too many requests'')"
    by (simp_all add: createUnauthorizedError_def new_Error_def startsWith_def)
  show ?thesis
    using handler_plain [OF p v, of "node_env env"]
    by (simp add: failure_response_def createUnauthorizedError_def new_Error_def)
qed


lemma changePassword_tokens:
  assumes "find (\<lambda>u. u_id u = au_id user) (db_users db) = Some u"
      and "bcrypt_compare env cur (u_password u)"
  shows "db_refreshTokens (snd (changePassword env user cur new db))
           = filter (\<lambda>r. rt_userId r \<noteq> au_id user) (db_refreshTokens db)"
  using assms by (simp add: changePassword_def Let_def deleteMany_user_def)

lemma changePassword_failed:
  assumes "\<not> (\<exists>u. find (\<lambda>u. u_id u = au_id user) (db_users db) = Some u
                 \<and> bcrypt_compare env cur (u_password u))"
  shows "snd (changePassword env user cur new db) = db"
  using assms by (auto simp: changePassword_def Let_def split: option.splits)

text \<open>
  Claim C1, as amended. Refresh-token rows are removed on the revocation events, and by
  these three handlers on no other occasion: (1) a logout that presents a token in its
  cookie deletes the rows that match both the token and the authenticated user's id, and
  a logout without the cookie deletes nothing; (2) a change of password that succeeds
  (the user exists and the current password matches) deletes every row of that user, and
  one that fails changes nothing; (3) a refresh attempt whose token passes
  \<open>verifyRefreshToken\<close> and whose stored row has \<open>expiresAt\<close> earlier than the current
  time deletes that row and fails with the 401 error "Refresh token expired"; every other
  refresh attempt keeps all rows.
\<close>

theorem refresh_token_revocation:
  "db_refreshTokens (snd (logout user (Some token) db))
      = filter (\<lambda>r. \<not> (rt_token r = token \<and> rt_userId r = au_id user)) (db_refreshTokens db)
   \<and> snd (logout user None db) = db
   \<and> (find (\<lambda>u. u_id u = au_id user) (db_users db) = Some u
        \<and> bcrypt_compare env cur (u_password u) \<longrightarrow>
          db_refreshTokens (snd (changePassword env user cur new db))
            = filter (\<lambda>r. rt_userId r \<noteq> au_id user) (db_refreshTokens db))
   \<and> (\<not> (\<exists>u. find (\<lambda>u. u_id u = au_id user) (db_users db) = Some u
                \<and> bcrypt_compare env cur (u_password u)) \<longrightarrow>
          snd (changePassword env user cur new db) = db)
   \<and> (verifyRefreshToken env token = Inr decoded
        \<and> findUnique_token token (db_refreshTokens db) = Some tokenRecord
        \<and> rt_expiresAt tokenRecord < now \<longrightarrow>
          refreshToken env now now' token db
            = (Inl (createUnauthorizedError (stack_at env 842) ''Refresh token expired''),
               db\<lparr>db_refreshTokens :=
                     filter (\<lambda>r. rt_id r \<noteq> rt_id tokenRecord) (db_refreshTokens db)\<rparr>)
        \<and> tokenRecord \<notin> set (db_refreshTokens (snd (refreshToken env now now' token db)))
        \<and> (\<exists>r. failure_response env (fst (refreshToken env now now' token db)) = Some (Inr r)
               \<and> r_status r = 401 \<and> r_success r = False
               \<and> r_message r = ''Refresh token expired''))
   \<and> (\<not> (\<exists>decoded tokenRecord. verifyRefreshToken env token = Inr decoded
              \<and> findUnique_token token (db_refreshTokens db) = Some tokenRecord
              \<and> rt_expiresAt tokenRecord < now) \<longrightarrow>
          map rt_id (db_refreshTokens (snd (refreshToken env now now' token db)))
            = map rt_id (db_refreshTokens db))"
proof (intro conjI impI)
  show "db_refreshTokens (snd (logout user (Some token) db))
      = filter (\<lambda>r. \<not> (rt_token r = token \<and> rt_userId r = au_id user)) (db_refreshTokens db)"
    by (simp add: logout_def deleteMany_token_user_def)
next
  show "snd (logout user None db) = db" by (simp add: logout_def)
next
  assume "find (\<lambda>u. u_id u = au_id user) (db_users db) = Some u
        \<and> bcrypt_compare env cur (u_password u)"
  then show "db_refreshTokens (snd (changePassword env user cur new db))
            = filter (\<lambda>r. rt_userId r \<noteq> au_id user) (db_refreshTokens db)"
    by (simp add: changePassword_tokens)
next
  assume "\<not> (\<exists>u. find (\<lambda>u. u_id u = au_id user) (db_users db) = Some u
                \<and> bcrypt_compare env cur (u_password u))"
  then show "snd (changePassword env user cur new db) = db"
    by (rule changePassword_failed)
next
  assume a: "verifyRefreshToken env token = Inr decoded
        \<and> findUnique_token token (db_refreshTokens db) = Some tokenRecord
        \<and> rt_expiresAt tokenRecord < now"
  then have e: "refreshToken env now now' token db
            = (Inl (createUnauthorizedError (stack_at env 842) ''Refresh token expired''),
               db\<lparr>db_refreshTokens :=
                     filter (\<lambda>r. rt_id r \<noteq> rt_id tokenRecord) (db_refreshTokens db)\<rparr>)"
    by (simp add: refresh_expired)
  show "refreshToken env now now' token db
            = (Inl (createUnauthorizedError (stack_at env 842) ''Refresh token expired''),
               db\<lparr>db_refreshTokens :=
                     filter (\<lambda>r. rt_id r \<noteq> rt_id tokenRecord) (db_refreshTokens db)\<rparr>)"
    by (rule e)
  show "tokenRecord \<notin> set (db_refreshTokens (snd (refreshToken env now now' token db)))"
    unfolding e by simp
  show "\<exists>r. failure_response env (fst (refreshToken env now now' token db)) = Some (Inr r)
               \<and> r_status r = 401 \<and> r_success r = False
               \<and> r_message r = ''Refresh token expired''"
    unfolding e by (simp add: expired_response)
next
  assume "\<not> (\<exists>decoded tokenRecord. verifyRefreshToken env token = Inr decoded
              \<and> findUnique_token token (db_refreshTokens db) = Some tokenRecord
              \<and> rt_expiresAt tokenRecord < now)"
  then show "map rt_id (db_refreshTokens (snd (refreshToken env now now' token db)))
            = map rt_id (db_refreshTokens db)"
    by (rule refresh_keeps_rows)
qed

text \<open>
  Without the proviso on \<open>verifyRefreshToken\<close> the third part fails. In the default
  configuration the token and its row both last seven days, the token counted from its
  issue second and the row from the later clock of the insertion: one millisecond after
  the row of the sample login has expired, the token no longer verifies, so the attempt
  fails before the row is looked up, the row stays, and the answer is the status 500 of
  a plain error, not 401.
\<close>

theorem refresh_token_revocation_counterexample:
  "findUnique_token (alice_token 0) (db_refreshTokens db_after_login)
     = Some \<lparr>rt_id = ''rt1'', rt_token = alice_token 0, rt_userId = ''u1'',
             rt_expiresAt = 604800000\<rparr>
   \<and> (604800000 :: int) < 604800001
   \<and> refreshToken (symbolic_env 604800001 ''production'') 604800001 604800001
        (alice_token 0) db_after_login
     = (Inl (new_Error (line_trace 64) ''Invalid or expired refresh token''), db_after_login)
   \<and> failure_response (symbolic_env 604800001 ''production'')
        (fst (refreshToken (symbolic_env 604800001 ''production'') 604800001 604800001
                (alice_token 0) db_after_login))
     = Some (Inr \<lparr>r_status = 500, r_success = False,
                  r_message = ''Invalid or expired refresh token'',
                  r_error = CodeStatus None 500 None, r_statusCode = None\<rparr>)"
proof -
  have f: "findUnique_token (alice_token 0) (db_refreshTokens db_after_login)
     = Some \<lparr>rt_id = ''rt1'', rt_token = alice_token 0, rt_userId = ''u1'',
             rt_expiresAt = 604800000\<rparr>"
    by (simp add: db_after_login_eq findUnique_token_def)
  have r: "refreshToken (symbolic_env 604800001 ''production'') 604800001 604800001
        (alice_token 0) db_after_login
     = (Inl (new_Error (line_trace 64) ''Invalid or expired refresh token''), db_after_login)"
    by (simp add: refreshToken_def verifyRefreshToken_def alice_token_eq symbolic_env_def
          symbolic_verify_def)
  have h: "failure_response (symbolic_env 604800001 ''production'')
        (Inl (new_Error (line_trace 64) ''Invalid or expired refresh token''))
     = Some (Inr \<lparr>r_status = 500, r_success = False,
                  r_message = ''Invalid or expired refresh token'',
                  r_error = CodeStatus None 500 None, r_statusCode = None\<rparr>)"
    by (simp add: failure_response_def errorHandler_def new_Error_def initial_verdict_def
          jwt_rule_def prisma_rule_def multer_rule_def cors_rule_def rate_limit_rule_def
          network_rule_def startsWith_def symbolic_env_def Let_def)
  show ?thesis using f r h by simp
qed


theorem refresh_token_revocation_witness:
  "db_refreshTokens (snd (logout (select_user alice) (Some (alice_token 0)) db_after_login)) = []
   \<and> db_refreshTokens
        (snd (changePassword (symbolic_env 9000 ''production'') (select_user alice)
                ''Secret#123'' ''Fresh#4567'' db_after_login)) = []
   \<and> refreshToken (symbolic_env 5000 ''production'') 5000 5000 (alice_token 0)
        \<lparr>db_users = [alice],
         db_refreshTokens = [\<lparr>rt_id = ''rt1'', rt_token = alice_token 0, rt_userId = ''u1'',
                              rt_expiresAt = 1000\<rparr>]\<rparr>
     = (Inl (createUnauthorizedError (line_trace 842) ''Refresh token expired''),
        \<lparr>db_users = [alice], db_refreshTokens = []\<rparr>)
   \<and> map rt_id (db_refreshTokens
        (snd (refreshToken (symbolic_env 5000 ''production'') 5000 5000 (alice_token 0)
                db_after_login))) = [''rt1'']"
proof -
  let ?env = "symbolic_env 5000 ''production''"
  let ?short = "\<lparr>db_users = [alice],
         db_refreshTokens = [\<lparr>rt_id = ''rt1'', rt_token = alice_token 0, rt_userId = ''u1'',
                              rt_expiresAt = 1000\<rparr>]\<rparr>"
  have u: "find (\<lambda>u. u_id u = au_id (select_user alice)) (db_users db_after_login) = Some alice
           \<and> bcrypt_compare (symbolic_env 9000 ''production'') ''Secret#123'' (u_password alice)"
    by (simp add: db_after_login_eq select_user_def) (simp add: alice_def symbolic_env_def)
  have v: "verifyRefreshToken ?env (alice_token 0)
             = Inr \<lparr>p_userId = ''u1'', p_email = ''alice@example.com'', p_role = BUYER,
                    p_sellerRole = None, p_type = ''refresh''\<rparr>"
    by (simp add: verifyRefreshToken_def alice_token_eq symbolic_env_def symbolic_verify_def)
  have x: "verifyRefreshToken ?env (alice_token 0)
             = Inr \<lparr>p_userId = ''u1'', p_email = ''alice@example.com'', p_role = BUYER,
                    p_sellerRole = None, p_type = ''refresh''\<rparr>
        \<and> findUnique_token (alice_token 0) (db_refreshTokens ?short)
             = Some \<lparr>rt_id = ''rt1'', rt_token = alice_token 0, rt_userId = ''u1'',
                     rt_expiresAt = 1000\<rparr>
        \<and> rt_expiresAt \<lparr>rt_id = ''rt1'', rt_token = alice_token 0, rt_userId = ''u1'',
                     rt_expiresAt = 1000\<rparr> < 5000"
    using v by (simp add: findUnique_token_def)
  have k: "\<not> (\<exists>decoded tokenRecord. verifyRefreshToken ?env (alice_token 0) = Inr decoded
              \<and> findUnique_token (alice_token 0) (db_refreshTokens db_after_login) = Some tokenRecord
              \<and> rt_expiresAt tokenRecord < 5000)"
    by (simp add: db_after_login_eq findUnique_token_def)
  have s: "stack_at ?env = line_trace" by (simp add: symbolic_env_def)
  have a: "db_refreshTokens (snd (logout (select_user alice) (Some (alice_token 0)) db_after_login)) = []"
    using refresh_token_revocation
            [of "select_user alice" "alice_token 0" db_after_login, THEN conjunct1]
    by (simp add: db_after_login_eq select_user_def) (simp add: alice_def)
  have b: "db_refreshTokens
        (snd (changePassword (symbolic_env 9000 ''production'') (select_user alice)
                ''Secret#123'' ''Fresh#4567'' db_after_login)) = []"
    using refresh_token_revocation
            [of "select_user alice" _ db_after_login alice "symbolic_env 9000 ''production''"
                "''Secret#123''" "''Fresh#4567''",
             THEN conjunct2, THEN conjunct2, THEN conjunct1, THEN mp, OF u]
    by (simp add: db_after_login_eq select_user_def) (simp add: alice_def)
  have c: "refreshToken ?env 5000 5000 (alice_token 0) ?short
     = (Inl (createUnauthorizedError (line_trace 842) ''Refresh token expired''),
        \<lparr>db_users = [alice], db_refreshTokens = []\<rparr>)"
    using refresh_token_revocation
            [of _ "alice_token 0" "?short" _ "?env" _ _ _
                "\<lparr>rt_id = ''rt1'', rt_token = alice_token 0, rt_userId = ''u1'',
                  rt_expiresAt = 1000\<rparr>" 5000 5000,
             THEN conjunct2, THEN conjunct2, THEN conjunct2, THEN conjunct2, THEN conjunct1,
             THEN mp, OF x, THEN conjunct1]
    by (simp add: s)
  have d: "map rt_id (db_refreshTokens
        (snd (refreshToken ?env 5000 5000 (alice_token 0) db_after_login))) = [''rt1'']"
    using refresh_token_revocation
            [of _ "alice_token 0" db_after_login _ "?env" _ _ _ _ 5000 5000,
             THEN conjunct2, THEN conjunct2, THEN conjunct2, THEN conjunct2, THEN conjunct2,
             THEN mp, OF k]
    by (simp add: db_after_login_eq)
  show ?thesis using a b c d by simp
qed

subsection \<open>Rotation of refresh tokens\<close>

lemma refresh_success:
  assumes "verifyRefreshToken env token = Inr decoded"
      and "findUnique_token token (db_refreshTokens db) = Some tokenRecord"
      and "\<not> rt_expiresAt tokenRecord < now"
      and "find (\<lambda>u. u_id u = rt_userId tokenRecord) (db_users db) = Some user"
      and "u_status user = ACTIVE"
      and "refreshToken env now now' token db = (Inr resp, db')"
  shows "resp = \<lparr>s_message = ''Token refreshed successfully'',
                 s_user = Some (select_user user),
                 s_tokens = Some (generateTokenPair env (subject_of user)),
                 s_cookies = token_cookies (generateTokenPair env (subject_of user))\<rparr>
       \<and> db' = db\<lparr>db_refreshTokens :=
                   map (\<lambda>r. if rt_id r = rt_id tokenRecord
                              then r\<lparr>rt_token := generateRefreshToken env (subject_of user),
                                     rt_expiresAt := now' + seven_days\<rparr>
                            else r) (db_refreshTokens db)\<rparr>"
  using assms
  by (auto simp: refreshToken_def Let_def update_token_def generateTokenPair_def
           split: sum.splits if_splits)

lemma distinct_token_id:
  assumes "distinct (map rt_token rows)" and "r \<in> set rows" and "r' \<in> set rows"
      and "rt_token r = rt_token r'"
  shows "r = r'"
  using assms by (meson distinct_map inj_onD)

text \<open>
  Claim C2, as amended. For a token that passes \<open>verifyRefreshToken\<close>, is stored, is
  not expired and belongs to an ACTIVE user, a refresh that succeeds updates the stored
  row in place (same id, same position, no row added or removed): its token becomes the
  newly generated refresh token and its \<open>expiresAt\<close> seven days after the current time;
  the response carries the newly generated access and refresh tokens, in the body and as
  cookies; and when the newly generated refresh token differs from the presented one
  (and tokens are unique among the stored rows), the presented token is no longer in the
  store.
\<close>

theorem refresh_rotation:
  assumes valid: "verifyRefreshToken env token = Inr decoded"
      and stored: "findUnique_token token (db_refreshTokens db) = Some tokenRecord"
      and unexpired: "\<not> rt_expiresAt tokenRecord < now"
      and owner: "find (\<lambda>u. u_id u = rt_userId tokenRecord) (db_users db) = Some user"
      and active: "u_status user = ACTIVE"
      and success: "refreshToken env now now' token db = (Inr resp, db')"
  shows "db_refreshTokens db' =
           map (\<lambda>r. if rt_id r = rt_id tokenRecord
                      then r\<lparr>rt_token := generateRefreshToken env (subject_of user),
                             rt_expiresAt := now' + 7 * 24 * 60 * 60 * 1000\<rparr>
                    else r) (db_refreshTokens db)
       \<and> length (db_refreshTokens db') = length (db_refreshTokens db)
       \<and> db_users db' = db_users db
       \<and> s_tokens resp =
           Some \<lparr>tp_accessToken = generateAccessToken env (subject_of user),
                 tp_refreshToken = generateRefreshToken env (subject_of user)\<rparr>
       \<and> s_cookies resp =
           [SetCookie ''accessToken'' (generateAccessToken env (subject_of user)) (15 * 60 * 1000),
            SetCookie ''refreshToken'' (generateRefreshToken env (subject_of user))
              (7 * 24 * 60 * 60 * 1000)]
       \<and> (generateRefreshToken env (subject_of user) \<noteq> token
            \<and> distinct (map rt_token (db_refreshTokens db)) \<longrightarrow>
              token \<notin> set (map rt_token (db_refreshTokens db')))"
proof -
  let ?new = "generateRefreshToken env (subject_of user)"
  note s = refresh_success [OF valid stored unexpired owner active success]
  have rows: "db_refreshTokens db' =
           map (\<lambda>r. if rt_id r = rt_id tokenRecord
                      then r\<lparr>rt_token := ?new, rt_expiresAt := now' + seven_days\<rparr>
                    else r) (db_refreshTokens db)"
    using s by simp
  have gone: "token \<notin> set (map rt_token (db_refreshTokens db'))"
    if ne: "?new \<noteq> token" and d: "distinct (map rt_token (db_refreshTokens db))"
  proof
    assume "token \<in> set (map rt_token (db_refreshTokens db'))"
    then obtain r where r: "r \<in> set (db_refreshTokens db)"
        and t: "rt_token (if rt_id r = rt_id tokenRecord
                      then r\<lparr>rt_token := ?new, rt_expiresAt := now' + seven_days\<rparr>
                    else r) = token"
      unfolding rows by auto
    from t ne have nid: "rt_id r \<noteq> rt_id tokenRecord" and tok: "rt_token r = token"
      by (auto split: if_splits)
    from find_token_Some [OF stored] have "tokenRecord \<in> set (db_refreshTokens db)"
      and "rt_token tokenRecord = token" by simp_all
    with distinct_token_id [OF d r, of tokenRecord] tok have "r = tokenRecord" by simp
    with nid show False by simp
  qed
  show ?thesis
    using s gone
    by (simp add: generateTokenPair_def token_cookies_def seven_days_def fifteen_minutes_def)
qed


lemma refresh_run:
  "t div 1000 < 604800 \<Longrightarrow> t \<le> 604800000 \<Longrightarrow>
   refreshToken (symbolic_env t ''production'') t t' (alice_token 0) db_after_login
     = (Inr \<lparr>s_message = ''Token refreshed successfully'',
             s_user = Some (select_user alice),
             s_tokens = Some (generateTokenPair (symbolic_env t ''production'') (subject_of alice)),
             s_cookies = token_cookies
                           (generateTokenPair (symbolic_env t ''production'') (subject_of alice))\<rparr>,
        \<lparr>db_users = [alice],
         db_refreshTokens = [\<lparr>rt_id = ''rt1'', rt_token = alice_token t, rt_userId = ''u1'',
                              rt_expiresAt = t' + 604800000\<rparr>]\<rparr>)"
  by (simp add: auth_run Let_def)

text \<open>
  The proviso is needed: the token library signs the same payload with the same secret in
  the same clock second to the same token. A refresh half a second after the sample
  login succeeds, and the presented token is still the stored one.
\<close>

theorem refresh_rotation_counterexample:
  "refreshToken (symbolic_env 500 ''production'') 500 500 (alice_token 0) db_after_login
     = (Inr \<lparr>s_message = ''Token refreshed successfully'',
             s_user = Some (select_user alice),
             s_tokens = Some (generateTokenPair (symbolic_env 500 ''production'')
                                (subject_of alice)),
             s_cookies = token_cookies
                           (generateTokenPair (symbolic_env 500 ''production'')
                              (subject_of alice))\<rparr>,
        \<lparr>db_users = [alice],
         db_refreshTokens = [\<lparr>rt_id = ''rt1'', rt_token = alice_token 0, rt_userId = ''u1'',
                              rt_expiresAt = 604800500\<rparr>]\<rparr>)
   \<and> alice_token 0
       \<in> set (map rt_token
                (db_refreshTokens
                   (snd (refreshToken (symbolic_env 500 ''production'') 500 500
                           (alice_token 0) db_after_login))))"
proof -
  have same: "alice_token 500 = alice_token 0" by (simp add: alice_token_eq)
  show ?thesis using refresh_run [of 500 500] by (simp add: same)
qed

theorem refresh_rotation_witness:
  "db_refreshTokens
     (snd (refreshToken (symbolic_env 5000 ''production'') 5000 5001 (alice_token 0)
             db_after_login))
     = [\<lparr>rt_id = ''rt1'', rt_token = alice_token 5000, rt_userId = ''u1'',
         rt_expiresAt = 604805001\<rparr>]
   \<and> alice_token 0
       \<notin> set (map rt_token
                (db_refreshTokens
                   (snd (refreshToken (symbolic_env 5000 ''production'') 5000 5001
                           (alice_token 0) db_after_login))))"
proof -
  let ?env = "symbolic_env 5000 ''production''"
  let ?row = "\<lparr>rt_id = ''rt1'', rt_token = alice_token 0, rt_userId = ''u1'',
               rt_expiresAt = 604800000\<rparr>"
  have valid: "verifyRefreshToken ?env (alice_token 0)
             = Inr \<lparr>p_userId = ''u1'', p_email = ''alice@example.com'', p_role = BUYER,
                    p_sellerRole = None, p_type = ''refresh''\<rparr>"
    by (simp add: verifyRefreshToken_def alice_token_eq symbolic_env_def symbolic_verify_def)
  have stored: "findUnique_token (alice_token 0) (db_refreshTokens db_after_login) = Some ?row"
    by (simp add: db_after_login_eq findUnique_token_def)
  have unexpired: "\<not> rt_expiresAt ?row < 5000" by simp
  have owner: "find (\<lambda>u. u_id u = rt_userId ?row) (db_users db_after_login) = Some alice"
    by (simp add: db_after_login_eq) (simp add: alice_def)
  have active: "u_status alice = ACTIVE" by (simp add: alice_def)
  have success: "refreshToken ?env 5000 5001 (alice_token 0) db_after_login
     = (Inr \<lparr>s_message = ''Token refreshed successfully'',
             s_user = Some (select_user alice),
             s_tokens = Some (generateTokenPair ?env (subject_of alice)),
             s_cookies = token_cookies (generateTokenPair ?env (subject_of alice))\<rparr>,
        \<lparr>db_users = [alice],
         db_refreshTokens = [\<lparr>rt_id = ''rt1'', rt_token = alice_token 5000, rt_userId = ''u1'',
                              rt_expiresAt = 5001 + 604800000\<rparr>]\<rparr>)"
    by (rule refresh_run) simp_all
  have g: "generateRefreshToken ?env (subject_of alice) = alice_token 5000"
    by (simp add: alice_token_def)
  have fresh: "generateRefreshToken ?env (subject_of alice) \<noteq> alice_token 0
               \<and> distinct (map rt_token (db_refreshTokens db_after_login))"
    unfolding g by (simp add: db_after_login_eq alice_token_eq)
  have gone: "alice_token 0
       \<notin> set (map rt_token
                (db_refreshTokens
                   \<lparr>db_users = [alice],
                    db_refreshTokens =
                      [\<lparr>rt_id = ''rt1'', rt_token = alice_token 5000, rt_userId = ''u1'',
                        rt_expiresAt = 5001 + 604800000\<rparr>]\<rparr>))"
    by (rule refresh_rotation [OF valid stored unexpired owner active success,
          THEN conjunct2, THEN conjunct2, THEN conjunct2, THEN conjunct2, THEN conjunct2,
          THEN mp, OF fresh])
  show ?thesis unfolding success using gone by simp
qed

subsection \<open>Deleting a product\<close>

lemma deleteProduct_soft:
  assumes "canManageProducts (au_role user) (au_sellerRole user)"
      and "find (\<lambda>p. pr_id p = pid) (db_products db) = Some existing"
      and "au_role user = SELLER \<longrightarrow> pr_sellerId existing = au_id user"
      and "\<exists>i\<in>set (db_orderItems db). oi_productId i = pid"
  shows "deleteProduct trace user pid db =
           (Inr ''Product deactivated successfully (has existing orders)'',
            db\<lparr>db_products :=
                  map (\<lambda>p. if pr_id p = pid then p\<lparr>pr_isActive := False\<rparr> else p)
                    (db_products db)\<rparr>)"
  using assms by (auto simp: deleteProduct_def Let_def filter_empty_conv)

lemma deleteProduct_hard:
  assumes "canManageProducts (au_role user) (au_sellerRole user)"
      and "find (\<lambda>p. pr_id p = pid) (db_products db) = Some existing"
      and "au_role user = SELLER \<longrightarrow> pr_sellerId existing = au_id user"
      and "\<not> (\<exists>i\<in>set (db_orderItems db). oi_productId i = pid)"
  shows "deleteProduct trace user pid db =
           (Inr ''Product deleted successfully'',
            db\<lparr>db_products := filter (\<lambda>p. pr_id p \<noteq> pid) (db_products db)\<rparr>)"
  using assms by (auto simp: deleteProduct_def Let_def filter_empty_conv)

lemma filter_map_other:
  "filter (\<lambda>p. pr_id p \<noteq> pid)
     (map (\<lambda>p. if pr_id p = pid then p\<lparr>pr_isActive := False\<rparr> else p) ps)
   = filter (\<lambda>p. pr_id p \<noteq> pid) ps"
  by (induction ps) auto

lemma map_id_soft:
  "map pr_id (map (\<lambda>p. if pr_id p = pid then p\<lparr>pr_isActive := False\<rparr> else p) ps)
   = map pr_id ps"
  by (induction ps) auto

lemma find_in_set: "find P xs = Some x \<Longrightarrow> x \<in> set xs \<and> P x"
  by (auto simp: find_Some_iff)

text \<open>
  Claim C3. For a deletion request by a user who may manage products, for a product that
  exists and, when the user is a seller, is the user's own: if an order item references
  the product, the product row stays in its place with \<open>isActive\<close> false and all its
  other fields as they were; if none does, the row is removed. In both cases the rows of
  all other products, and the order items, are unchanged.
\<close>

theorem deleteProduct_soft_or_hard:
  assumes perm: "canManageProducts (au_role user) (au_sellerRole user)"
      and found: "find (\<lambda>p. pr_id p = pid) (db_products db) = Some existing"
      and owns: "au_role user = SELLER \<longrightarrow> pr_sellerId existing = au_id user"
  shows "((\<exists>i\<in>set (db_orderItems db). oi_productId i = pid) \<longrightarrow>
            deleteProduct trace user pid db =
              (Inr ''Product deactivated successfully (has existing orders)'',
               db\<lparr>db_products :=
                     map (\<lambda>p. if pr_id p = pid then p\<lparr>pr_isActive := False\<rparr> else p)
                       (db_products db)\<rparr>)
          \<and> existing\<lparr>pr_isActive := False\<rparr>
               \<in> set (db_products (snd (deleteProduct trace user pid db)))
          \<and> map pr_id (db_products (snd (deleteProduct trace user pid db)))
               = map pr_id (db_products db))
       \<and> (\<not> (\<exists>i\<in>set (db_orderItems db). oi_productId i = pid) \<longrightarrow>
            deleteProduct trace user pid db =
              (Inr ''Product deleted successfully'',
               db\<lparr>db_products := filter (\<lambda>p. pr_id p \<noteq> pid) (db_products db)\<rparr>)
          \<and> pid \<notin> set (map pr_id (db_products (snd (deleteProduct trace user pid db)))))
       \<and> filter (\<lambda>p. pr_id p \<noteq> pid) (db_products (snd (deleteProduct trace user pid db)))
           = filter (\<lambda>p. pr_id p \<noteq> pid) (db_products db)
       \<and> db_orderItems (snd (deleteProduct trace user pid db)) = db_orderItems db"
proof (cases "\<exists>i\<in>set (db_orderItems db). oi_productId i = pid")
  case True
  note d = deleteProduct_soft [OF perm found owns True, of trace]
  from find_in_set [OF found] have "existing \<in> set (db_products db)" "pr_id existing = pid"
    by simp_all
  then have "existing\<lparr>pr_isActive := False\<rparr>
      \<in> set (map (\<lambda>p. if pr_id p = pid then p\<lparr>pr_isActive := False\<rparr> else p) (db_products db))"
    by force
  with True show ?thesis
    unfolding d by (simp add: filter_map_other map_id_soft)
next
  case False
  note d = deleteProduct_hard [OF perm found owns False, of trace]
  from False show ?thesis unfolding d by auto
qed

theorem deleteProduct_soft_or_hard_witness:
  "deleteProduct line_trace sam ''p1'' shop
     = (Inr ''Product deactivated successfully (has existing orders)'',
        shop\<lparr>db_products := [mug\<lparr>pr_isActive := False\<rparr>, lamp]\<rparr>)
   \<and> deleteProduct line_trace sam ''p2'' shop
     = (Inr ''Product deleted successfully'', shop\<lparr>db_products := [mug]\<rparr>)"
proof -
  have perm: "canManageProducts (au_role sam) (au_sellerRole sam)"
    by (simp add: sam_def canManageProducts_def)
  have f1: "find (\<lambda>p. pr_id p = ''p1'') (db_products shop) = Some mug"
    by (simp add: shop_def mug_def)
  have f2: "find (\<lambda>p. pr_id p = ''p2'') (db_products shop) = Some lamp"
    by (simp add: shop_def mug_def lamp_def)
  have o1: "au_role sam = SELLER \<longrightarrow> pr_sellerId mug = au_id sam"
    by (simp add: sam_def mug_def)
  have o2: "au_role sam = SELLER \<longrightarrow> pr_sellerId lamp = au_id sam"
    by (simp add: sam_def lamp_def)
  have i1: "\<exists>i\<in>set (db_orderItems shop). oi_productId i = ''p1''"
    by (simp add: shop_def)
  have i2: "\<not> (\<exists>i\<in>set (db_orderItems shop). oi_productId i = ''p2'')"
    by (simp add: shop_def)
  have a: "deleteProduct line_trace sam ''p1'' shop
     = (Inr ''Product deactivated successfully (has existing orders)'',
        shop\<lparr>db_products :=
               map (\<lambda>p. if pr_id p = ''p1'' then p\<lparr>pr_isActive := False\<rparr> else p)
                 (db_products shop)\<rparr>)"
    using deleteProduct_soft_or_hard [OF perm f1 o1, THEN conjunct1, THEN mp, OF i1,
            THEN conjunct1] .
  have b: "deleteProduct line_trace sam ''p2'' shop
     = (Inr ''Product deleted successfully'',
        shop\<lparr>db_products := filter (\<lambda>p. pr_id p \<noteq> ''p2'') (db_products shop)\<rparr>)"
    using deleteProduct_soft_or_hard [OF perm f2 o2, THEN conjunct2, THEN conjunct1, THEN mp,
            OF i2, THEN conjunct1] .
  have m: "map (\<lambda>p. if pr_id p = ''p1'' then p\<lparr>pr_isActive := False\<rparr> else p)
             (db_products shop) = [mug\<lparr>pr_isActive := False\<rparr>, lamp]"
    by (simp add: shop_def) (simp add: mug_def lamp_def)
  have n: "filter (\<lambda>p. pr_id p \<noteq> ''p2'') (db_products shop) = [mug]"
    by (simp add: shop_def) (simp add: mug_def lamp_def)
  show ?thesis unfolding a b m n by simp
qed


subsection \<open>Order status updates\<close>

lemma decimal_1234: "decimal 1234 = ''1234''"
  by code_simp

text \<open>
  Claim C5, as amended. The order-status-update handler, the only status-update path in
  the code, writes nothing: it leaves the orders and the status history as they are. When
  the order exists and the sender is an admin or the seller of the order, it relays the
  new status: a notification and an order-updated event to the buyer's room and an
  acknowledgement to the sender. Otherwise it emits one error event to the sender.
\<close>

theorem order_status_update_relays:
  "snd (order_status_update now created user data db) = db
   \<and> (find (\<lambda>row. o_id row = d_orderId data) (db_orders db) = Some found
        \<and> (su_role user = ADMIN \<or> (su_role user = SELLER \<and> o_sellerId found = su_id user))
      \<longrightarrow>
        fst (order_status_update now created user data db) =
          [ToRoom (''user_'' @ o_buyerId found)
             (NotificationEvent
                \<lparr>n_id = ''notif_'' @ decimal now,
                 n_title = ''Order Status Updated'',
                 n_message = ''Your order #'' @ o_orderNumber found
                               @ '' status has been updated to '' @ d_status data,
                 n_type = ''order_status'',
                 n_userId = o_buyerId found,
                 n_data = \<lparr>nd_orderId = o_id found, nd_orderNumber = o_orderNumber found,
                            nd_status = d_status data, nd_notes = d_notes data\<rparr>,
                 n_createdAt = created\<rparr>),
           ToRoom (''user_'' @ o_buyerId found)
             (OrderUpdated (o_id found) (d_status data) (d_notes data)),
           ToSender (OrderStatusUpdated True (o_id found) (d_status data))])
   \<and> (\<not> (\<exists>found. find (\<lambda>row. o_id row = d_orderId data) (db_orders db) = Some found
              \<and> (su_role user = ADMIN
                   \<or> (su_role user = SELLER \<and> o_sellerId found = su_id user)))
      \<longrightarrow>
        fst (order_status_update now created user data db) = [ToSender (ErrorEvent ''Unauthorized'')]
        \<or> fst (order_status_update now created user data db) = [ToSender (ErrorEvent ''Order not found'')])"
proof (intro conjI impI)
  show "snd (order_status_update now created user data db) = db"
    by (simp add: order_status_update_def Let_def split: option.splits)
next
  assume "find (\<lambda>row. o_id row = d_orderId data) (db_orders db) = Some found
        \<and> (su_role user = ADMIN \<or> (su_role user = SELLER \<and> o_sellerId found = su_id user))"
  then show "fst (order_status_update now created user data db) =
          [ToRoom (''user_'' @ o_buyerId found)
             (NotificationEvent
                \<lparr>n_id = ''notif_'' @ decimal now,
                 n_title = ''Order Status Updated'',
                 n_message = ''Your order #'' @ o_orderNumber found
                               @ '' status has been updated to '' @ d_status data,
                 n_type = ''order_status'',
                 n_userId = o_buyerId found,
                 n_data = \<lparr>nd_orderId = o_id found, nd_orderNumber = o_orderNumber found,
                            nd_status = d_status data, nd_notes = d_notes data\<rparr>,
                 n_createdAt = created\<rparr>),
           ToRoom (''user_'' @ o_buyerId found)
             (OrderUpdated (o_id found) (d_status data) (d_notes data)),
           ToSender (OrderStatusUpdated True (o_id found) (d_status data))]"
    by (auto simp: order_status_update_def Let_def)
next
  assume "\<not> (\<exists>found. find (\<lambda>row. o_id row = d_orderId data) (db_orders db) = Some found
              \<and> (su_role user = ADMIN
                   \<or> (su_role user = SELLER \<and> o_sellerId found = su_id user)))"
  then show "fst (order_status_update now created user data db) = [ToSender (ErrorEvent ''Unauthorized'')]
        \<or> fst (order_status_update now created user data db) = [ToSender (ErrorEvent ''Order not found'')]"
    by (cases "su_role user") (auto simp: order_status_update_def Let_def split: option.splits)
qed

text \<open>
  The claim as stated fails: the seller of the sample order reports the status
  PROCESSING and is acknowledged, yet the history still holds only the entry of the
  order's creation and the stored status is still PENDING_APPROVAL.
\<close>

theorem order_status_update_relays_counterexample:
  "fst (order_status_update 1234 1235 sam_socket to_processing orders) =
     [ToRoom ''user_u1''
        (NotificationEvent
           \<lparr>n_id = ''notif_1234'', n_title = ''Order Status Updated'',
            n_message = ''Your order #ORD-1 status has been updated to PROCESSING'',
            n_type = ''order_status'', n_userId = ''u1'',
            n_data = \<lparr>nd_orderId = ''o1'', nd_orderNumber = ''ORD-1'',
                       nd_status = ''PROCESSING'', nd_notes = None\<rparr>,
            n_createdAt = 1235\<rparr>),
      ToRoom ''user_u1'' (OrderUpdated ''o1'' ''PROCESSING'' None),
      ToSender (OrderStatusUpdated True ''o1'' ''PROCESSING'')]
   \<and> db_statusHistory (snd (order_status_update 1234 1235 sam_socket to_processing orders)) =
       [\<lparr>h_orderId = ''o1'', h_status = ''PENDING_APPROVAL'',
         h_notes = Some ''Order placed successfully''\<rparr>]
   \<and> map o_status (db_orders (snd (order_status_update 1234 1235 sam_socket to_processing orders)))
       = [''PENDING_APPROVAL'']"
  by (simp add: order_status_update_def sam_socket_def to_processing_def orders_def
        order_o1_def decimal_1234 Let_def)

theorem order_status_update_relays_witness:
  "snd (order_status_update 1234 1235 sam_socket to_processing orders) = orders
   \<and> fst (order_status_update 1234 1235 sam_socket to_processing orders) =
     [ToRoom ''user_u1''
        (NotificationEvent
           \<lparr>n_id = ''notif_1234'', n_title = ''Order Status Updated'',
            n_message = ''Your order #ORD-1 status has been updated to PROCESSING'',
            n_type = ''order_status'', n_userId = ''u1'',
            n_data = \<lparr>nd_orderId = ''o1'', nd_orderNumber = ''ORD-1'',
                       nd_status = ''PROCESSING'', nd_notes = None\<rparr>,
            n_createdAt = 1235\<rparr>),
      ToRoom ''user_u1'' (OrderUpdated ''o1'' ''PROCESSING'' None),
      ToSender (OrderStatusUpdated True ''o1'' ''PROCESSING'')]
   \<and> fst (order_status_update 1234 1235 sam_socket
             \<lparr>d_orderId = ''o9'', d_status = ''PROCESSING'', d_notes = None\<rparr> orders)
       = [ToSender (ErrorEvent ''Order not found'')]"
proof -
  have f: "find (\<lambda>row. o_id row = d_orderId to_processing) (db_orders orders) = Some order_o1
        \<and> (su_role sam_socket = ADMIN
             \<or> (su_role sam_socket = SELLER \<and> o_sellerId order_o1 = su_id sam_socket))"
    by (simp add: to_processing_def orders_def order_o1_def sam_socket_def)
  have g: "\<not> (\<exists>found. find (\<lambda>row. o_id row
                 = d_orderId \<lparr>d_orderId = ''o9'', d_status = ''PROCESSING'', d_notes = None\<rparr>)
                 (db_orders orders) = Some found
              \<and> (su_role sam_socket = ADMIN
                   \<or> (su_role sam_socket = SELLER \<and> o_sellerId found = su_id sam_socket)))"
    by (simp add: orders_def order_o1_def)
  have a: "snd (order_status_update 1234 1235 sam_socket to_processing orders) = orders"
    by (rule order_status_update_relays [THEN conjunct1])
  have b: "fst (order_status_update 1234 1235 sam_socket to_processing orders) =
     [ToRoom ''user_u1''
        (NotificationEvent
           \<lparr>n_id = ''notif_1234'', n_title = ''Order Status Updated'',
            n_message = ''Your order #ORD-1 status has been updated to PROCESSING'',
            n_type = ''order_status'', n_userId = ''u1'',
            n_data = \<lparr>nd_orderId = ''o1'', nd_orderNumber = ''ORD-1'',
                       nd_status = ''PROCESSING'', nd_notes = None\<rparr>,
            n_createdAt = 1235\<rparr>),
      ToRoom ''user_u1'' (OrderUpdated ''o1'' ''PROCESSING'' None),
      ToSender (OrderStatusUpdated True ''o1'' ''PROCESSING'')]"
    using order_status_update_relays [of 1234 1235 sam_socket to_processing orders order_o1,
            THEN conjunct2, THEN conjunct1, THEN mp, OF f]
    by (simp add: to_processing_def order_o1_def decimal_1234)
  have c: "fst (order_status_update 1234 1235 sam_socket
             \<lparr>d_orderId = ''o9'', d_status = ''PROCESSING'', d_notes = None\<rparr> orders)
       = [ToSender (ErrorEvent ''Order not found'')]"
    using order_status_update_relays [of 1234 1235 sam_socket
            "\<lparr>d_orderId = ''o9'', d_status = ''PROCESSING'', d_notes = None\<rparr>" orders,
            THEN conjunct2, THEN conjunct2, THEN mp, OF g]
    by (simp add: order_status_update_def sam_socket_def orders_def order_o1_def)
  show ?thesis using a b c by simp
qed

end
